theory Spec2Isabelle
  imports Complex_Main
begin

section \<open>Data model\<close>

text \<open>
  The server keeps its durable data in MongoDB collections (modelled as lists of
  records, in natural order, so that \<open>findOne\<close> is the first match), expiring keys in
  Redis (a partial map), and reports to clients by emitting socket events (a log).
  \<open>live\<close> holds the ids of the connected sockets, and \<open>logged\<close> the lines the routes
  write with \<open>logger.warn\<close> and \<open>logger.error\<close>: the route's tag and the error.
  An ObjectId is a natural number; \<open>next_id\<close> is the next id a \<open>create\<close> hands out.
  Times are epoch milliseconds, and a route reads the clock once. The message texts of
  the source are Chinese literals; each one is a constructor of \<open>errmsg\<close>, named after
  what it says. A route returns its answer or the error it throws (or, in two places,
  the message it answers with), together with the store it leaves.

  Calls on the store are taken to succeed, except in \<open>deleteUser\<close>, where each call
  may throw; the Redis calls of the session routes may throw call by call, as the
  source expects them to.
\<close>

type_synonym oid = nat

datatype errmsg =
    AdminOnlyConfigure
  | BotNameEmpty
  | LlmUrlEmpty
  | ApiKeyEmpty
  | ModelEmpty
  | ContentEmpty
  | BotNotEnabled
  | InvalidGroupId
  | GroupNotExist
  | NotGroupMember
  | MentionFormat
  | LLMCallFailed string
  | AIReplyFailed errmsg
  | TokenEmpty
  | IllegalToken
  | TokenExpired
  | IllegalLogin
  | UserNotExist
  | UsernameEmpty
  | PasswordEmpty
  | RegisterDisabled
  | UsernameBanned
  | UsernameExists
  | RegisterLimit
  | DefaultGroupNotExist
  | UsernameInvalid
  | WrongPassword
  | UserIdEmpty
  | NotAdmin
  | RedisError
  | LdapError
  | StoreError

datatype role = User | Assistant | System

record LLMMessage =
  lm_role :: role
  lm_content :: string

record ConversationMessage =
  cm_role :: role
  cm_content :: string
  cm_createTime :: int

record conversation =
  cv_id :: oid
  cv_user :: oid
  cv_bot :: oid
  cv_group :: "oid option"
  cv_messages :: "ConversationMessage list"
  cv_createTime :: int
  cv_lastActiveTime :: int

record bot_config =
  llmUrl :: string
  apiKey :: string
  model :: string
  systemPrompt :: string
  temperature :: rat
  maxTokens :: int
  maxHistory :: int

record bot =
  b_id :: oid
  b_name :: string
  b_avatar :: string
  b_enabled :: bool
  b_config :: bot_config
  b_creator :: "oid option"

record user =
  u_id :: oid
  u_username :: string
  u_salt :: string
  u_password :: string
  u_avatar :: string
  u_tag :: string
  u_createTime :: int
  u_lastLoginTime :: int
  u_lastLoginIp :: string
  u_authProvider :: string

record group =
  g_id :: oid
  g_name :: string
  g_avatar :: string
  g_creator :: "oid option"
  g_members :: "oid list"
  g_isDefault :: bool
  g_createTime :: int

record friend =
  f_from :: oid
  f_to :: oid

record message =
  m_id :: oid
  m_from :: oid
  m_to :: oid
  m_type :: string
  m_content :: string
  m_createTime :: int

record history =
  h_user :: oid
  h_message :: oid

record socket_doc =
  s_id :: string
  s_user :: "oid option"
  s_os :: string
  s_browser :: string
  s_environment :: string
  s_ip :: string

record notification =
  n_user :: oid
  n_token :: string

text \<open>
  The Redis keys the routes use come from helper functions of the Redis module
  (\<open>getNewUserKey(userId)\<close> and so on); a key is the helper with its argument.
\<close>

datatype redis_key =
    NewRegisteredUserIpKey string
  | NewUserKey oid
  | BannedUsernameKey string
  | SealUserKey oid
  | DisableRegisterKey

text \<open>The events the routes emit, with the room (a user id or a group id) they go to.\<close>

datatype event =
    BotMessageStream oid string string oid "oid option"
  | BotMessageComplete oid string message
  | BotMessageError oid string errmsg
  | ForceLogout string

record state =
  users :: "user list"
  groups :: "group list"
  friends :: "friend list"
  messages :: "message list"
  histories :: "history list"
  sockets :: "socket_doc list"
  notifications :: "notification list"
  bots :: "bot list"
  conversations :: "conversation list"
  redis :: "redis_key \<Rightarrow> string option"
  next_id :: oid
  live :: "string list"
  events :: "event list"
  logged :: "(string \<times> errmsg) list"

section \<open>The completion service (services/llm.ts)\<close>

text \<open>
  The request \<open>chat\<close> posts, and what the service does with it. \<open>PostFails cause\<close> is
  a rejected \<open>axios.post\<close>, with the text
  \<open>err.response?.data?.error?.message || err.message\<close>. A streamed response is the
  frames its data events carry, in order, and how the stream ends: each
  \<open>data: \<close> line is a frame, \<open>Delta c\<close> one whose JSON has the content \<open>c\<close>,
  \<open>Skipped\<close> one whose JSON does not parse (it is ignored), \<open>Done\<close> the line
  \<open>data: [DONE]\<close>.
\<close>

record llm_request =
  rq_url :: string
  rq_apiKey :: string
  rq_model :: string
  rq_messages :: "LLMMessage list"
  rq_temperature :: rat
  rq_max_tokens :: int

datatype frame = Delta string | Skipped | Done

datatype stream_end = StreamEnd | StreamError string

datatype llm_response = PostFails string | Streamed "frame list" stream_end

text \<open>
  \<open>xs.slice(start)\<close> of JavaScript: a negative start counts from the end, and
  \<open>-0\<close> is \<open>0\<close>.
\<close>

definition slice :: "'a list \<Rightarrow> int \<Rightarrow> 'a list" where
  "slice xs start =
     (let len = int (length xs);
          k = (if start < 0 then max (len + start) 0 else min start len)
      in drop (nat k) xs)"

definition buildContext :: "string \<Rightarrow> LLMMessage list \<Rightarrow> string \<Rightarrow> int \<Rightarrow> LLMMessage list" where
  "buildContext sysPrompt hist userMessage maxHist =
     [\<lparr>lm_role = System, lm_content = sysPrompt\<rparr>]
       @ slice hist (- maxHist * 2)
       @ [\<lparr>lm_role = User, lm_content = userMessage\<rparr>]"

text \<open>
  \<open>handleStreamResponse\<close>: the content so far and the chunks given to \<open>onChunk\<close> so
  far are threaded through the frames; the promise settles at \<open>Done\<close>, at the end
  of the stream, or at its error. A frame with an empty content is not forwarded. What
  a stream carries after the promise has settled is left out.
\<close>

fun handleStreamResponse ::
  "frame list \<Rightarrow> stream_end \<Rightarrow> string \<Rightarrow> string list \<Rightarrow> string list \<times> (string + string)" where
  "handleStreamResponse [] StreamEnd fullContent chunks = (chunks, Inr fullContent)"
| "handleStreamResponse [] (StreamError e) fullContent chunks = (chunks, Inl e)"
| "handleStreamResponse (Done # fs) fin fullContent chunks = (chunks, Inr fullContent)"
| "handleStreamResponse (Skipped # fs) fin fullContent chunks =
     handleStreamResponse fs fin fullContent chunks"
| "handleStreamResponse (Delta c # fs) fin fullContent chunks =
     (if c \<noteq> [] then handleStreamResponse fs fin (fullContent @ c) (chunks @ [c])
      else handleStreamResponse fs fin fullContent chunks)"

text \<open>
  \<open>chat\<close> with \<open>stream: true\<close> and an \<open>onChunk\<close> callback, as both routes call it:
  the chunks handed to the callback, and the full text or the error it throws.
\<close>

definition chat :: "(llm_request \<Rightarrow> llm_response) \<Rightarrow> llm_request \<Rightarrow> string list \<times> (errmsg + string)" where
  "chat service rq =
     (case service rq of
        PostFails cause \<Rightarrow> ([], Inl (LLMCallFailed cause))
      | Streamed fs fin \<Rightarrow>
          (case handleStreamResponse fs fin [] [] of
             (chunks, Inr fullContent) \<Rightarrow> (chunks, Inr fullContent)
           | (chunks, Inl cause) \<Rightarrow> (chunks, Inl (LLMCallFailed cause))))"

section \<open>The bot routes (routes/bot.ts)\<close>

text \<open>
  What a route reads from outside the store: the clock, the fresh correlation id
  (\<open>new Types.ObjectId().toString()\<close>), the completion service, the avatar
  \<open>getRandomAvatar()\<close> draws, and JavaScript's regular expression matcher:
  \<open>e_match name content\<close> is the first group of
  \<open>content.match(new RegExp(`@${name}\\s+(.+)`, 's'))\<close>, \<open>None\<close> when there is no
  match.
\<close>

record bot_env =
  e_now :: int
  e_tempMessageId :: string
  e_llm :: "llm_request \<Rightarrow> llm_response"
  e_randomAvatar :: string
  e_match :: "string \<Rightarrow> string \<Rightarrow> string option"

text \<open>The connection a request arrives on (\<open>ctx.socket\<close>).\<close>

record socket_ctx =
  sk_id :: string
  sk_user :: "oid option"
  sk_isAdmin :: bool
  sk_ip :: string
  sk_rooms :: "oid list"

record config_input =
  ci_llmUrl :: string
  ci_apiKey :: string
  ci_model :: string
  ci_systemPrompt :: "string option"
  ci_temperature :: "rat option"
  ci_maxTokens :: "int option"
  ci_maxHistory :: "int option"

record bot_view =
  bv_id :: oid
  bv_name :: string
  bv_avatar :: string
  bv_enabled :: bool
  bv_config :: bot_config

text \<open>\<open>x || d\<close> on an optional string and on an optional number.\<close>

definition str_or :: "string option \<Rightarrow> string \<Rightarrow> string" where
  "str_or x d = (case x of None \<Rightarrow> d | Some v \<Rightarrow> if v = [] then d else v)"

definition num_or :: "'a::zero option \<Rightarrow> 'a \<Rightarrow> 'a" where
  "num_or x d = (case x of None \<Rightarrow> d | Some v \<Rightarrow> if v = 0 then d else v)"

text \<open>The default system prompt (a Chinese literal in the source, given here in English).\<close>

definition defaultSystemPrompt :: string where
  "defaultSystemPrompt = ''You are a friendly AI assistant; answer concisely and accurately.''"

text \<open>\<open>{...bot.config, ...config}\<close>: a key the request carries replaces the stored one.\<close>

definition merge_config :: "bot_config \<Rightarrow> config_input \<Rightarrow> bot_config" where
  "merge_config old ci =
     \<lparr>llmUrl = ci_llmUrl ci, apiKey = ci_apiKey ci, model = ci_model ci,
      systemPrompt = (case ci_systemPrompt ci of None \<Rightarrow> systemPrompt old | Some v \<Rightarrow> v),
      temperature = (case ci_temperature ci of None \<Rightarrow> temperature old | Some v \<Rightarrow> v),
      maxTokens = (case ci_maxTokens ci of None \<Rightarrow> maxTokens old | Some v \<Rightarrow> v),
      maxHistory = (case ci_maxHistory ci of None \<Rightarrow> maxHistory old | Some v \<Rightarrow> v)\<rparr>"

definition new_config :: "config_input \<Rightarrow> bot_config" where
  "new_config ci =
     \<lparr>llmUrl = ci_llmUrl ci, apiKey = ci_apiKey ci, model = ci_model ci,
      systemPrompt = str_or (ci_systemPrompt ci) defaultSystemPrompt,
      temperature = num_or (ci_temperature ci) (7 / 10),
      maxTokens = num_or (ci_maxTokens ci) 2000,
      maxHistory = num_or (ci_maxHistory ci) 10\<rparr>"

text \<open>\<open>Bot.findOne({ type: 'ai' })\<close>: every bot has the type \<open>ai\<close>.\<close>

definition findBot :: "state \<Rightarrow> bot option" where
  "findBot s = (case bots s of [] \<Rightarrow> None | b # _ \<Rightarrow> Some b)"

definition saveBot :: "bot \<Rightarrow> state \<Rightarrow> state" where
  "saveBot b s = s\<lparr>bots := map (\<lambda>d. if b_id d = b_id b then b else d) (bots s)\<rparr>"

definition mask_view :: "bot \<Rightarrow> string \<Rightarrow> bot_view" where
  "mask_view b key =
     \<lparr>bv_id = b_id b, bv_name = b_name b, bv_avatar = b_avatar b, bv_enabled = b_enabled b,
      bv_config = (b_config b)\<lparr>apiKey := key\<rparr>\<rparr>"

definition configureBot ::
  "bot_env \<Rightarrow> socket_ctx \<Rightarrow> string \<Rightarrow> string option \<Rightarrow> config_input \<Rightarrow> state
     \<Rightarrow> (errmsg + bot_view) \<times> state" where
  "configureBot e sock name avatar cfg s =
     (if \<not> sk_isAdmin sock then (Inl AdminOnlyConfigure, s)
      else if name = [] then (Inl BotNameEmpty, s)
      else if ci_llmUrl cfg = [] then (Inl LlmUrlEmpty, s)
      else if ci_apiKey cfg = [] then (Inl ApiKeyEmpty, s)
      else if ci_model cfg = [] then (Inl ModelEmpty, s)
      else
        (case findBot s of
           Some b0 \<Rightarrow>
             (let b = b0\<lparr>b_name := name,
                        b_avatar := str_or avatar (b_avatar b0),
                        b_config := merge_config (b_config b0) cfg,
                        b_creator := sk_user sock\<rparr>
              in (Inr (mask_view b ''***''), saveBot b s))
         | None \<Rightarrow>
             (let b = \<lparr>b_id = next_id s, b_name = name,
                       b_avatar = str_or avatar (e_randomAvatar e),
                       b_enabled = False, b_config = new_config cfg,
                       b_creator = sk_user sock\<rparr>
              in (Inr (mask_view b ''***''),
                  s\<lparr>bots := bots s @ [b], next_id := Suc (next_id s)\<rparr>))))"

definition getBotConfig :: "socket_ctx \<Rightarrow> state \<Rightarrow> bot_view option" where
  "getBotConfig sock s =
     (case findBot s of
        None \<Rightarrow> None
      | Some b \<Rightarrow>
          Some (mask_view b (if sk_isAdmin sock then apiKey (b_config b) else ''***'')))"

subsection \<open>Conversations\<close>

definition findEnabledBot :: "state \<Rightarrow> bot option" where
  "findEnabledBot s = find b_enabled (bots s)"

definition findConversation :: "state \<Rightarrow> oid \<Rightarrow> oid \<Rightarrow> oid option \<Rightarrow> conversation option" where
  "findConversation s u b g =
     find (\<lambda>c. cv_user c = u \<and> cv_bot c = b \<and> cv_group c = g) (conversations s)"

definition createConversation ::
  "int \<Rightarrow> oid \<Rightarrow> oid \<Rightarrow> oid option \<Rightarrow> state \<Rightarrow> conversation \<times> state" where
  "createConversation t u b g s =
     (let c = \<lparr>cv_id = next_id s, cv_user = u, cv_bot = b, cv_group = g, cv_messages = [],
               cv_createTime = t, cv_lastActiveTime = t\<rparr>
      in (c, s\<lparr>conversations := conversations s @ [c], next_id := Suc (next_id s)\<rparr>))"

definition saveConversation :: "conversation \<Rightarrow> state \<Rightarrow> state" where
  "saveConversation c s =
     s\<lparr>conversations := map (\<lambda>d. if cv_id d = cv_id c then c else d) (conversations s)\<rparr>"

definition createMessage :: "int \<Rightarrow> oid \<Rightarrow> oid \<Rightarrow> string \<Rightarrow> state \<Rightarrow> message \<times> state" where
  "createMessage t frm dest txt s =
     (let m = \<lparr>m_id = next_id s, m_from = frm, m_to = dest, m_type = ''text'',
               m_content = txt, m_createTime = t\<rparr>
      in (m, s\<lparr>messages := messages s @ [m], next_id := Suc (next_id s)\<rparr>))"

definition logError :: "string \<Rightarrow> errmsg \<Rightarrow> state \<Rightarrow> state" where
  "logError tag err s = s\<lparr>logged := logged s @ [(tag, err)]\<rparr>"

definition emit :: "event \<Rightarrow> state \<Rightarrow> state" where
  "emit ev s = s\<lparr>events := events s @ [ev]\<rparr>"

text \<open>
  The trim after the assistant turn:
  \<open>if (messages.length > maxMessages) messages = messages.slice(-maxMessages)\<close>.
\<close>

definition trimHistory :: "int \<Rightarrow> 'a list \<Rightarrow> 'a list" where
  "trimHistory maxHist ms =
     (let maxMessages = maxHist * 2
      in if int (length ms) > maxMessages then slice ms (- maxMessages) else ms)"

definition userTurn :: "bot_env \<Rightarrow> string \<Rightarrow> ConversationMessage" where
  "userTurn e txt = \<lparr>cm_role = User, cm_content = txt, cm_createTime = e_now e\<rparr>"

definition assistantTurn :: "bot_env \<Rightarrow> string \<Rightarrow> ConversationMessage" where
  "assistantTurn e txt = \<lparr>cm_role = Assistant, cm_content = txt, cm_createTime = e_now e\<rparr>"

definition botRequest :: "bot \<Rightarrow> LLMMessage list \<Rightarrow> llm_request" where
  "botRequest b ctxt =
     \<lparr>rq_url = llmUrl (b_config b), rq_apiKey = apiKey (b_config b),
      rq_model = model (b_config b), rq_messages = ctxt,
      rq_temperature = temperature (b_config b), rq_max_tokens = maxTokens (b_config b)\<rparr>"

text \<open>
  \<open>Conversation.findOne\<close> for the triple and, when there is none,
  \<open>Conversation.create\<close> with no messages: the document the route works on, and the
  store after it.
\<close>

definition loadConversation ::
  "bot_env \<Rightarrow> oid \<Rightarrow> oid \<Rightarrow> oid option \<Rightarrow> state \<Rightarrow> conversation \<times> state" where
  "loadConversation e u b g s =
     (case findConversation s u b g of
        Some c \<Rightarrow> (c, s)
      | None \<Rightarrow> createConversation (e_now e) u b g s)"

text \<open>
  The request of an exchange: the user turn is pushed onto the loaded document (in
  memory), and the context is built from the document's turns and the user's text.
\<close>

definition pushUserTurn :: "bot_env \<Rightarrow> conversation \<Rightarrow> string \<Rightarrow> conversation" where
  "pushUserTurn e conv userMessage =
     conv\<lparr>cv_messages := cv_messages conv @ [userTurn e userMessage]\<rparr>"

definition relayRequest :: "bot_env \<Rightarrow> bot \<Rightarrow> conversation \<Rightarrow> string \<Rightarrow> llm_request" where
  "relayRequest e b conv userMessage =
     botRequest b
       (buildContext (systemPrompt (b_config b))
          (map (\<lambda>m. \<lparr>lm_role = cm_role m, lm_content = cm_content m\<rparr>)
             (cv_messages (pushUserTurn e conv userMessage)))
          userMessage (maxHistory (b_config b)))"

text \<open>
  The two chat routes share the rest of their bodies: the \<open>try\<close> block calls the
  service, forwarding each chunk to the room; on success it pushes the assistant turn,
  trims, saves the document, creates the message and emits the completion; its
  \<open>catch\<close> emits the error event and throws. The routes differ in the room
  (\<open>room\<close>: the user or the group), the group id of the stream events (\<open>grp\<close>),
  the text of the stored message (\<open>wrap\<close>) and the tag of the log line (\<open>tag\<close>).
\<close>

definition streamEvents :: "bot_env \<Rightarrow> bot \<Rightarrow> oid \<Rightarrow> oid option \<Rightarrow> string list \<Rightarrow> event list" where
  "streamEvents e b room grp chunks =
     map (\<lambda>c. BotMessageStream room (e_tempMessageId e) c (b_id b) grp) chunks"

definition exchange ::
  "bot_env \<Rightarrow> bot \<Rightarrow> conversation \<Rightarrow> string \<Rightarrow> oid \<Rightarrow> oid option \<Rightarrow> (string \<Rightarrow> string)
     \<Rightarrow> string \<Rightarrow> state \<Rightarrow> (errmsg + oid) \<times> state" where
  "exchange e b conv userMessage room grp wrap tag s =
     (let conv1 = pushUserTurn e conv userMessage;
          (chunks, r) = chat (e_llm e) (relayRequest e b conv userMessage);
          s1 = s\<lparr>events := events s @ streamEvents e b room grp chunks\<rparr>
      in case r of
           Inr fullResponse \<Rightarrow>
             (let conv2 = conv1\<lparr>cv_messages :=
                              trimHistory (maxHistory (b_config b))
                                (cv_messages conv1 @ [assistantTurn e fullResponse]),
                            cv_lastActiveTime := e_now e\<rparr>;
                  s2 = saveConversation conv2 s1;
                  (msg, s3) = createMessage (e_now e) (b_id b) room (wrap fullResponse) s2
              in (Inr (m_id msg), emit (BotMessageComplete room (e_tempMessageId e) msg) s3))
         | Inl err \<Rightarrow>
             (Inl (AIReplyFailed err),
              emit (BotMessageError room (e_tempMessageId e) err) (logError tag err s1)))"

text \<open>
  \<open>sendMessageToBot\<close>; \<open>userId\<close> is \<open>ctx.socket.user\<close> of the logged-in connection. The
  private conversation is the one without a group.
\<close>

definition sendMessageToBot :: "bot_env \<Rightarrow> oid \<Rightarrow> string \<Rightarrow> state \<Rightarrow> (errmsg + oid) \<times> state" where
  "sendMessageToBot e userId content s =
     (if content = [] then (Inl ContentEmpty, s)
      else case findEnabledBot s of
        None \<Rightarrow> (Inl BotNotEnabled, s)
      | Some b \<Rightarrow>
          (let (conv, s0) = loadConversation e userId (b_id b) None s
           in exchange e b conv content userId None (\<lambda>r. r) ''sendMessageToBot'' s0))"

text \<open>A group id as the client sends it: a string that is an ObjectId or is not.\<close>

datatype id_arg = ValidId oid | InvalidId string

definition js_space :: "char \<Rightarrow> bool" where
  "js_space c = (c \<in> set [CHR '' '', CHR 0x09, CHR 0x0A, CHR 0x0B, CHR 0x0C, CHR 0x0D])"

definition trim :: "string \<Rightarrow> string" where
  "trim str = rev (dropWhile js_space (rev (dropWhile js_space str)))"

definition findUserById :: "state \<Rightarrow> oid \<Rightarrow> user option" where
  "findUserById s i = find (\<lambda>u. u_id u = i) (users s)"

definition findGroupById :: "state \<Rightarrow> oid \<Rightarrow> group option" where
  "findGroupById s i = find (\<lambda>g. g_id g = i) (groups s)"

definition mentionBotInGroup ::
  "bot_env \<Rightarrow> oid \<Rightarrow> id_arg \<Rightarrow> string \<Rightarrow> state \<Rightarrow> (errmsg + oid) \<times> state" where
  "mentionBotInGroup e userId groupArg content s =
     (case groupArg of
        InvalidId _ \<Rightarrow> (Inl InvalidGroupId, s)
      | ValidId groupId \<Rightarrow>
          if content = [] then (Inl ContentEmpty, s)
          else case findGroupById s groupId of
            None \<Rightarrow> (Inl GroupNotExist, s)
          | Some grp \<Rightarrow>
              if userId \<notin> set (g_members grp) then (Inl NotGroupMember, s)
              else case findEnabledBot s of
                None \<Rightarrow> (Inl BotNotEnabled, s)
              | Some b \<Rightarrow>
                  (case e_match e (b_name b) content of
                     None \<Rightarrow> (Inl MentionFormat, s)
                   | Some captured \<Rightarrow>
                       (let userMessage = trim captured;
                            (conv, s0) = loadConversation e userId (b_id b) (Some groupId) s;
                            uname = str_or (map_option u_username (findUserById s0 userId)) ''user''
                        in exchange e b conv userMessage groupId (Some groupId)
                             (\<lambda>r. ''@'' @ uname @ '' '' @ r) ''mentionBotInGroup'' s0)))"

section \<open>The session routes: tokens, registration, login\<close>

record ldap_config =
  ldap_enable :: bool
  ldap_url :: string
  bindDN :: string
  bindCredentials :: string
  searchBase :: string
  searchFilter :: string

record server_config =
  jwtSecret :: string
  tokenExpiresTime :: int
  disableRegister :: bool
  administrator :: "oid list"
  ldap :: "ldap_config option"

text \<open>
  The directory server, as the three calls of \<open>authenticateWithLdap\<close> see it: whether a
  bind with a name and a secret succeeds, the names of the entries a search under a base
  with a filter returns (\<open>None\<close>: the search throws), and whether the final unbind
  succeeds.
\<close>

record ldap_server =
  ls_bind :: "string \<Rightarrow> string \<Rightarrow> bool"
  ls_search :: "string \<Rightarrow> string \<Rightarrow> string list option"
  ls_unbind :: bool

text \<open>
  Every Redis call of these routes may throw (the source catches some of them as
  connection errors): the environment says which call sites do. The password hashing
  library, the random avatar and the schema validation of a new User document
  (\<open>a_username_valid\<close>: the charset and length rule of the model) are taken from the
  environment as well.
\<close>

datatype redis_site =
    GetDisableRegister
  | HasBannedUsername
  | GetRegisteredCount
  | SetNewUser
  | GetNewUserIp
  | SetNewUserIp

record auth_env =
  a_now :: int
  a_config :: server_config
  a_redis_fails :: "redis_site \<Rightarrow> bool"
  a_username_valid :: "string \<Rightarrow> bool"
  a_randomAvatar :: string
  a_salt :: string
  a_hash :: "string \<Rightarrow> string \<Rightarrow> string"
  a_compare :: "string \<Rightarrow> string \<Rightarrow> bool"
  a_ldap :: ldap_server

subsection \<open>Tokens\<close>

text \<open>
  A token of \<open>jwt.encode\<close> is its payload signed with a secret, and \<open>jwt.decode\<close> gives the
  payload back exactly when the secret is the signing one; any other string a client
  sends is \<open>Opaque\<close> and does not decode.
\<close>

record payload =
  p_user :: oid
  p_environment :: string
  p_expires :: int

datatype token = Jwt payload string | Opaque string

definition jwt_decode :: "token \<Rightarrow> string \<Rightarrow> payload option" where
  "jwt_decode tok secret =
     (case tok of Jwt p k \<Rightarrow> if k = secret then Some p else None | Opaque _ \<Rightarrow> None)"

definition generateToken :: "auth_env \<Rightarrow> oid \<Rightarrow> string \<Rightarrow> token" where
  "generateToken e uid environment =
     Jwt \<lparr>p_user = uid, p_environment = environment,
          p_expires = a_now e + tokenExpiresTime (a_config e)\<rparr>
       (jwtSecret (a_config e))"

subsection \<open>Numbers in Redis values\<close>

definition is_digit :: "char \<Rightarrow> bool" where
  "is_digit c = (48 \<le> (of_char c :: nat) \<and> (of_char c :: nat) \<le> 57)"

definition digits_value :: "string \<Rightarrow> nat" where
  "digits_value ds = foldl (\<lambda>a c. 10 * a + (of_char c - 48)) 0 ds"

text \<open>
  \<open>parseInt(str, 10)\<close>: leading white space, a sign, then the longest run of digits;
  \<open>None\<close> is \<open>NaN\<close>.
\<close>

definition parseInt :: "string \<Rightarrow> int option" where
  "parseInt str =
     (let t = dropWhile js_space str;
          (neg, r) = (case t of
                        [] \<Rightarrow> (False, t)
                      | c # cs \<Rightarrow> if c = CHR ''-'' then (True, cs)
                                 else if c = CHR ''+'' then (False, cs) else (False, t));
          ds = takeWhile is_digit r
      in if ds = [] then None
         else Some (if neg then - int (digits_value ds) else int (digits_value ds)))"

function string_of_nat :: "nat \<Rightarrow> string" where
  "string_of_nat n =
     (if n < 10 then [char_of (48 + n)]
      else string_of_nat (n div 10) @ [char_of (48 + n mod 10)])"
  by pat_completeness auto
termination
  by (relation "measure id") auto

text \<open>\<open>x.toString()\<close> of a number that is an integer or \<open>NaN\<close>.\<close>

definition numToString :: "int option \<Rightarrow> string" where
  "numToString x =
     (case x of
        None \<Rightarrow> ''NaN''
      | Some i \<Rightarrow> if i < 0 then CHR ''-'' # string_of_nat (nat (- i)) else string_of_nat (nat i))"

definition OneDay :: int where
  "OneDay = 1000 * 60 * 60 * 24"

subsection \<open>New users and the registration counter\<close>

text \<open>
  \<open>handleNewUser(user, ip = '')\<close>: for a user created less than a day ago, the flag
  under \<open>getNewUserKey\<close> is set and, when an address is given, the counter of the
  address is read, incremented and written back. The expiry of the keys (a day) is not
  modelled: a state is a moment within the window.
\<close>

definition handleNewUser :: "auth_env \<Rightarrow> user \<Rightarrow> string \<Rightarrow> state \<Rightarrow> (errmsg + unit) \<times> state" where
  "handleNewUser e usr ip s =
     (if a_now e - u_createTime usr < OneDay then
        (if a_redis_fails e SetNewUser then (Inl RedisError, s)
         else
           (let s1 = s\<lparr>redis := (redis s)(NewUserKey (u_id usr) \<mapsto> string_of_nat (u_id usr))\<rparr>
            in if ip \<noteq> [] then
                 (if a_redis_fails e GetNewUserIp then (Inl RedisError, s1)
                  else
                    (let registeredCount = redis s1 (NewRegisteredUserIpKey ip)
                     in if a_redis_fails e SetNewUserIp then (Inl RedisError, s1)
                        else
                          (Inr (),
                           s1\<lparr>redis := (redis s1)(NewRegisteredUserIpKey ip \<mapsto>
                                 numToString
                                   (map_option (\<lambda>n. n + 1)
                                      (parseInt (str_or registeredCount ''0''))))\<rparr>)))
               else (Inr (), s1)))
      else (Inr (), s))"

text \<open>
  The rate limit of \<open>register\<close>: the counter of the address is read inside a
  \<open>try\<close> whose \<open>catch\<close> logs and goes on with \<open>null\<close>; a counter that was read
  must parse to less than 3 (\<open>NaN < 3\<close> is false).
\<close>

definition readRegisteredCount :: "auth_env \<Rightarrow> string \<Rightarrow> state \<Rightarrow> string option \<times> state" where
  "readRegisteredCount e ip s =
     (if a_redis_fails e GetRegisteredCount then (None, logError ''register'' RedisError s)
      else (redis s (NewRegisteredUserIpKey ip), s))"

definition countAllows :: "string option \<Rightarrow> bool" where
  "countAllows registeredCountWithin24Hours =
     (case registeredCountWithin24Hours of
        None \<Rightarrow> True
      | Some v \<Rightarrow>
          (case parseInt (str_or (Some v) ''0'') of None \<Rightarrow> False | Some count \<Rightarrow> count < 3))"

subsection \<open>Documents\<close>

definition findUserByName :: "state \<Rightarrow> string \<Rightarrow> user option" where
  "findUserByName s name = find (\<lambda>u. u_username u = name) (users s)"

definition findDefaultGroup :: "state \<Rightarrow> group option" where
  "findDefaultGroup s = find g_isDefault (groups s)"

text \<open>
  \<open>User.create\<close>: the document gets the next id and the creation time of the clock; the
  schema validation rejects a user name with a \<open>ValidationError\<close>.
\<close>

definition createUser ::
  "auth_env \<Rightarrow> string \<Rightarrow> string \<Rightarrow> string \<Rightarrow> string \<Rightarrow> string \<Rightarrow> state \<Rightarrow> (errmsg + user) \<times> state" where
  "createUser e name salt pw ip provider s =
     (if \<not> a_username_valid e name then (Inl UsernameInvalid, s)
      else
        (let u = \<lparr>u_id = next_id s, u_username = name, u_salt = salt, u_password = pw,
                  u_avatar = a_randomAvatar e, u_tag = [], u_createTime = a_now e,
                  u_lastLoginTime = a_now e, u_lastLoginIp = ip, u_authProvider = provider\<rparr>
         in (Inr u, s\<lparr>users := users s @ [u], next_id := Suc (next_id s)\<rparr>)))"

definition saveUser :: "user \<Rightarrow> state \<Rightarrow> state" where
  "saveUser u s = s\<lparr>users := map (\<lambda>d. if u_id d = u_id u then u else d) (users s)\<rparr>"

definition saveGroup :: "group \<Rightarrow> state \<Rightarrow> state" where
  "saveGroup g s = s\<lparr>groups := map (\<lambda>d. if g_id d = g_id g then g else d) (groups s)\<rparr>"

text \<open>
  The join of a new identity to the default group, as \<open>register\<close> and the directory
  branch of \<open>login\<close> both write it:
  \<open>if (!defaultGroup.creator) defaultGroup.creator = id; defaultGroup.members.push(id);
  await defaultGroup.save()\<close>.
\<close>

definition joinDefaultGroup :: "group \<Rightarrow> oid \<Rightarrow> state \<Rightarrow> group \<times> state" where
  "joinDefaultGroup defaultGroup uid s =
     (let g = defaultGroup\<lparr>g_creator := (case g_creator defaultGroup of
                                           None \<Rightarrow> Some uid | Some c \<Rightarrow> Some c),
                          g_members := g_members defaultGroup @ [uid]\<rparr>
      in (g, saveGroup g s))"

record client_env =
  ce_os :: string
  ce_browser :: string
  ce_environment :: string

fun update_first :: "('a \<Rightarrow> bool) \<Rightarrow> ('a \<Rightarrow> 'a) \<Rightarrow> 'a list \<Rightarrow> 'a list" where
  "update_first P f [] = []"
| "update_first P f (x # xs) = (if P x then f x # xs else x # update_first P f xs)"

text \<open>
  Binding the connection: \<open>ctx.socket.user = id\<close> and
  \<open>Socket.updateOne({ id: ctx.socket.id }, { user, os, browser, environment })\<close>.
\<close>

definition bindSocket :: "socket_ctx \<Rightarrow> oid \<Rightarrow> client_env \<Rightarrow> state \<Rightarrow> socket_ctx \<times> state" where
  "bindSocket sock uid ce s =
     (sock\<lparr>sk_user := Some uid\<rparr>,
      s\<lparr>sockets := update_first (\<lambda>d. s_id d = sk_id sock)
           (\<lambda>d. d\<lparr>s_user := Some uid, s_os := ce_os ce, s_browser := ce_browser ce,
                  s_environment := ce_environment ce\<rparr>)
           (sockets s)\<rparr>)"

record login_result =
  lr_id :: oid
  lr_username :: string
  lr_avatar :: string
  lr_groups :: "oid list"
  lr_friends :: "oid list"
  lr_token :: "token option"
  lr_isAdmin :: bool
  lr_notificationTokens :: "string list"
  lr_authProvider :: "string option"

subsection \<open>register\<close>

text \<open>
  The check of the banned user names sits in a \<open>try\<close> whose \<open>catch\<close> logs and goes
  on; the assertion that the name is not banned is inside that \<open>try\<close>, so its failure
  is caught as well.
\<close>

definition bannedCheck :: "auth_env \<Rightarrow> string \<Rightarrow> state \<Rightarrow> state" where
  "bannedCheck e username s =
     (if a_redis_fails e HasBannedUsername then logError ''register'' RedisError s
      else if redis s (BannedUsernameKey username) \<noteq> None
        then logError ''register'' UsernameBanned s
      else s)"

text \<open>
  The end of \<open>register\<close>, once the user document exists and \<open>handleNewUser\<close> has
  returned: the join of the default group, the token, the binding of the connection.
\<close>

definition finishRegister ::
  "auth_env \<Rightarrow> user \<Rightarrow> group \<Rightarrow> client_env \<Rightarrow> socket_ctx \<Rightarrow> state
     \<Rightarrow> (errmsg + login_result) \<times> socket_ctx \<times> state" where
  "finishRegister e newUser defaultGroup ce sock s =
     (let (g, s5) = joinDefaultGroup defaultGroup (u_id newUser) s;
          tok = generateToken e (u_id newUser) (ce_environment ce);
          (sock', s6) = bindSocket sock (u_id newUser) ce s5
      in (Inr \<lparr>lr_id = u_id newUser, lr_username = u_username newUser,
               lr_avatar = u_avatar newUser, lr_groups = [g_id g],
               lr_friends = [], lr_token = Some tok, lr_isAdmin = False,
               lr_notificationTokens = [], lr_authProvider = None\<rparr>,
          sock', s6))"

text \<open>
  The part of \<open>register\<close> after its checks: \<open>User.create\<close> (a \<open>ValidationError\<close> is
  answered with a message, the store unchanged), \<open>handleNewUser\<close> with the address of
  the connection, and the end above.
\<close>

definition enrol ::
  "auth_env \<Rightarrow> string \<Rightarrow> string \<Rightarrow> group \<Rightarrow> client_env \<Rightarrow> socket_ctx \<Rightarrow> state
     \<Rightarrow> (errmsg + login_result) \<times> socket_ctx \<times> state" where
  "enrol e username password defaultGroup ce sock s =
     (case createUser e username (a_salt e) (a_hash e password (a_salt e))
             (sk_ip sock) [] s of
        (Inl err, s3) \<Rightarrow> (Inl err, sock, s3)
      | (Inr newUser, s3) \<Rightarrow>
          (case handleNewUser e newUser (sk_ip sock) s3 of
             (Inl err, s4) \<Rightarrow> (Inl err, sock, s4)
           | (Inr _, s4) \<Rightarrow> finishRegister e newUser defaultGroup ce sock s4))"

definition register ::
  "auth_env \<Rightarrow> string \<Rightarrow> string \<Rightarrow> client_env \<Rightarrow> socket_ctx \<Rightarrow> state
     \<Rightarrow> (errmsg + login_result) \<times> socket_ctx \<times> state" where
  "register e username password ce sock s =
     (if a_redis_fails e GetDisableRegister then (Inl RedisError, sock, s)
      else if (case redis s DisableRegisterKey of
                 Some v \<Rightarrow> v = ''true''
               | None \<Rightarrow> disableRegister (a_config e))
        then (Inl RegisterDisabled, sock, s)
      else if username = [] then (Inl UsernameEmpty, sock, s)
      else if password = [] then (Inl PasswordEmpty, sock, s)
      else
        (let s1 = bannedCheck e username s
         in if findUserByName s1 username \<noteq> None then (Inl UsernameExists, sock, s1)
            else
              (let (registeredCountWithin24Hours, s2) = readRegisteredCount e (sk_ip sock) s1
               in if \<not> countAllows registeredCountWithin24Hours then (Inl RegisterLimit, sock, s2)
                  else case findDefaultGroup s2 of
                    None \<Rightarrow> (Inl DefaultGroupNotExist, sock, s2)
                  | Some defaultGroup \<Rightarrow> enrol e username password defaultGroup ce sock s2)))"

subsection \<open>The directory service (utils/ldap.ts)\<close>

text \<open>
  \<open>template.replace(/\{\{username\}\}/g, username)\<close>, with the user name taken
  literally.
\<close>

function formatSearchFilter :: "string \<Rightarrow> string \<Rightarrow> string" where
  "formatSearchFilter [] username = []"
| "formatSearchFilter (c # cs) username =
     (if take 12 (c # cs) = ''{{username}}''
      then username @ formatSearchFilter (drop 11 cs) username
      else c # formatSearchFilter cs username)"
  by pat_completeness auto
termination
  by (relation "measure (\<lambda>(t, u). length t)") auto

text \<open>
  \<open>authenticateWithLdap\<close>: the service bind, the search, the bind as the entry found;
  \<open>finally\<close> unbinds, and an unbind that throws replaces the outcome.
\<close>

definition authenticateWithLdap ::
  "ldap_server \<Rightarrow> ldap_config \<Rightarrow> string \<Rightarrow> string \<Rightarrow> errmsg + string option" where
  "authenticateWithLdap srv cfg username password =
     (if \<not> ldap_enable cfg then Inr None
      else
        (let r = (if \<not> ls_bind srv (bindDN cfg) (bindCredentials cfg) then Inl LdapError
                  else case ls_search srv (searchBase cfg)
                              (formatSearchFilter (searchFilter cfg) username) of
                    None \<Rightarrow> Inl LdapError
                  | Some [] \<Rightarrow> Inr None
                  | Some (userDn # _) \<Rightarrow>
                      if \<not> ls_bind srv userDn password then Inl LdapError
                      else Inr (Some userDn))
         in if \<not> ls_unbind srv then Inl LdapError else r))"

subsection \<open>login and loginByToken\<close>

datatype auth_type = AuthLdap | AuthLocal

text \<open>
  The provisioning of a directory user who has no identity yet, inside the \<open>try\<close> of
  the directory branch of \<open>login\<close>: the user document the route goes on with, and the
  store. The \<open>catch\<close> logs a warning and goes on, and everything done before a throw
  stays: when \<open>handleNewUser\<close> throws, the user exists and the join of the default
  group has not happened.
\<close>

definition provision ::
  "auth_env \<Rightarrow> string \<Rightarrow> string \<Rightarrow> state \<Rightarrow> user option \<times> state" where
  "provision e username ip s =
     (case findDefaultGroup s of
        None \<Rightarrow> (None, logError ''login'' DefaultGroupNotExist s)
      | Some defaultGroup \<Rightarrow>
          (case createUser e username [] [] ip ''ldap'' s of
             (Inl err, s1) \<Rightarrow> (None, logError ''login'' err s1)
           | (Inr u, s1) \<Rightarrow>
               (case handleNewUser e u ip s1 of
                  (Inl err, s2) \<Rightarrow> (Some u, logError ''login'' err s2)
                | (Inr _, s2) \<Rightarrow> (Some u, snd (joinDefaultGroup defaultGroup (u_id u) s2)))))"

text \<open>
  The directory branch of \<open>login\<close>: the user document the route continues with, the flag
  \<open>isLdapAuthenticated\<close>, and the store. The flag is set as soon as the directory has
  authenticated the user, before the identity is provisioned.
\<close>

definition ldapBranch ::
  "auth_env \<Rightarrow> string \<Rightarrow> string \<Rightarrow> auth_type option \<Rightarrow> string \<Rightarrow> user option \<Rightarrow> state
     \<Rightarrow> user option \<times> bool \<times> state" where
  "ldapBranch e username password authType ip usr s =
     (case ldap (a_config e) of
        None \<Rightarrow> (usr, False, s)
      | Some cfg \<Rightarrow>
          if \<not> ldap_enable cfg \<or> authType = Some AuthLocal then (usr, False, s)
          else
            (case authenticateWithLdap (a_ldap e) cfg username password of
               Inl err \<Rightarrow> (usr, False, logError ''login'' err s)
             | Inr None \<Rightarrow> (usr, False, s)
             | Inr (Some dn) \<Rightarrow>
                 (case usr of
                    Some u \<Rightarrow> (Some (u\<lparr>u_authProvider := ''ldap''\<rparr>), True, s)
                  | None \<Rightarrow>
                      (let (u, s1) = provision e username ip s in (u, True, s1)))))"

text \<open>
  What \<open>login\<close> and \<open>loginByToken\<close> do once the user is established: the last login is
  saved, the connection joins the rooms of the user's groups, and the connection is
  bound. \<open>tok\<close> is the token \<open>login\<close> issues (\<open>loginByToken\<close> issues none), \<open>prov\<close> the
  provider \<open>login\<close> reports.
\<close>

definition completeLogin ::
  "auth_env \<Rightarrow> user \<Rightarrow> client_env \<Rightarrow> bool \<Rightarrow> socket_ctx \<Rightarrow> state
     \<Rightarrow> (errmsg + login_result) \<times> socket_ctx \<times> state" where
  "completeLogin e usr ce issue sock s =
     (let u = usr\<lparr>u_lastLoginTime := a_now e, u_lastLoginIp := sk_ip sock\<rparr>;
          s1 = saveUser u s;
          grps = filter (\<lambda>g. u_id u \<in> set (g_members g)) (groups s1);
          sock1 = sock\<lparr>sk_rooms := sk_rooms sock @ map g_id grps\<rparr>;
          frs = filter (\<lambda>f. f_from f = u_id u) (friends s1);
          (sock2, s2) = bindSocket sock1 (u_id u) ce s1
      in (Inr \<lparr>lr_id = u_id u, lr_username = u_username u, lr_avatar = u_avatar u,
               lr_groups = map g_id grps, lr_friends = map f_to frs,
               lr_token = (if issue then Some (generateToken e (u_id u) (ce_environment ce))
                           else None),
               lr_isAdmin = (u_id u \<in> set (administrator (a_config e))),
               lr_notificationTokens =
                 map n_token (filter (\<lambda>n. n_user n = u_id u) (notifications s2)),
               lr_authProvider =
                 (if issue then Some (if u_authProvider u = [] then ''local''
                                      else u_authProvider u)
                  else None)\<rparr>,
          sock2, s2))"

definition login ::
  "auth_env \<Rightarrow> string \<Rightarrow> string \<Rightarrow> auth_type option \<Rightarrow> client_env \<Rightarrow> socket_ctx \<Rightarrow> state
     \<Rightarrow> (errmsg + login_result) \<times> socket_ctx \<times> state" where
  "login e username password authType ce sock s =
     (if username = [] then (Inl UsernameEmpty, sock, s)
      else if password = [] then (Inl PasswordEmpty, sock, s)
      else
        (let (usr, isLdapAuthenticated, s1) =
               ldapBranch e username password authType (sk_ip sock)
                 (findUserByName s username) s
         in case usr of
              None \<Rightarrow> (Inl UserNotExist, sock, s1)
            | Some u \<Rightarrow>
                if isLdapAuthenticated then completeLogin e u ce True sock s1
                else if \<not> a_compare e password (u_password u) then (Inl WrongPassword, sock, s1)
                else (case handleNewUser e u [] s1 of
                        (Inl err, s2) \<Rightarrow> (Inl err, sock, s2)
                      | (Inr _, s2) \<Rightarrow> completeLogin e u ce True sock s2)))"

definition loginByToken ::
  "auth_env \<Rightarrow> token \<Rightarrow> client_env \<Rightarrow> socket_ctx \<Rightarrow> state
     \<Rightarrow> (errmsg + login_result) \<times> socket_ctx \<times> state" where
  "loginByToken e tok ce sock s =
     (if tok = Opaque [] then (Inl TokenEmpty, sock, s)
      else case jwt_decode tok (jwtSecret (a_config e)) of
        None \<Rightarrow> (Inl IllegalToken, sock, s)
      | Some pl \<Rightarrow>
          if \<not> a_now e < p_expires pl then (Inl TokenExpired, sock, s)
          else if ce_environment ce \<noteq> p_environment pl then (Inl IllegalLogin, sock, s)
          else case findUserById s (p_user pl) of
            None \<Rightarrow> (Inl UserNotExist, sock, s)
          | Some u \<Rightarrow>
              (case handleNewUser e u [] s of
                 (Inl err, s1) \<Rightarrow> (Inl err, sock, s1)
               | (Inr _, s1) \<Rightarrow> completeLogin e u ce False sock s1))"

section \<open>Deleting a user\<close>

text \<open>
  The calls \<open>deleteUser\<close> makes on the store, each of which may throw, and the three
  Redis deletions, each of which may throw as well.
\<close>

datatype db_site =
    FindUser
  | FindSockets
  | FindMessages
  | DeleteHistories
  | DeleteMessages
  | FindGroups
  | SaveGroup oid
  | DeleteFriendsFrom
  | DeleteFriendsTo
  | DeleteSockets
  | DeleteNotifications
  | DeleteUserDoc

record del_env =
  d_db_fails :: "db_site \<Rightarrow> bool"
  d_redis_del_fails :: "redis_key \<Rightarrow> bool"

type_synonym step = "state \<Rightarrow> (errmsg + unit) \<times> state"

text \<open>Statements in sequence: the first one that throws ends the run.\<close>

fun run_steps :: "step list \<Rightarrow> step" where
  "run_steps [] s = (Inr (), s)"
| "run_steps (f # fs) s =
     (case f s of
        (Inl err, s') \<Rightarrow> (Inl err, s')
      | (Inr _, s') \<Rightarrow> run_steps fs s')"

text \<open>
  The Redis clean-up: \<open>Promise.all\<close> of three deletions inside a \<open>try\<close>; a deletion that
  does not throw takes effect, and the \<open>catch\<close> logs a warning and goes on.
\<close>

definition redisCleanup :: "del_env \<Rightarrow> user \<Rightarrow> step" where
  "redisCleanup e usr s =
     (let ks = [SealUserKey (u_id usr), BannedUsernameKey (u_username usr), NewUserKey (u_id usr)];
          s1 = s\<lparr>redis := (\<lambda>k. if k \<in> set ks \<and> \<not> d_redis_del_fails e k then None
                                else redis s k)\<rparr>
      in (Inr (),
          if list_ex (d_redis_del_fails e) ks then logError ''deleteUser'' RedisError s1
          else s1))"

text \<open>
  The forced logout: every Socket document of the user whose socket is still connected
  gets the \<open>forceLogout\<close> event and is disconnected.
\<close>

definition forceDisconnect :: "del_env \<Rightarrow> user \<Rightarrow> step" where
  "forceDisconnect e usr s =
     (if d_db_fails e FindSockets then (Inl StoreError, s)
      else
        (let socketIds = map s_id (filter (\<lambda>d. s_user d = Some (u_id usr)) (sockets s));
             connected = filter (\<lambda>i. i \<in> set (live s)) socketIds
         in (Inr (),
             s\<lparr>events := events s @ map ForceLogout connected,
               live := filter (\<lambda>i. i \<notin> set connected) (live s)\<rparr>)))"

definition deleteMessages :: "del_env \<Rightarrow> user \<Rightarrow> step" where
  "deleteMessages e usr s =
     (if d_db_fails e FindMessages then (Inl StoreError, s)
      else
        (let msgs = filter (\<lambda>m. m_from m = u_id usr) (messages s)
         in if msgs \<noteq> [] then
              (if d_db_fails e DeleteHistories then (Inl StoreError, s)
               else
                 (let s1 = s\<lparr>histories :=
                              filter (\<lambda>h. h_message h \<notin> set (map m_id msgs)) (histories s)\<rparr>
                  in if d_db_fails e DeleteMessages then (Inl StoreError, s1)
                     else (Inr (),
                           s1\<lparr>messages := filter (\<lambda>m. m_from m \<noteq> u_id usr) (messages s1)\<rparr>)))
            else (Inr (), s)))"

text \<open>
  \<open>members.indexOf(id)\<close> and \<open>splice(index, 1)\<close> take the first occurrence out. Each
  group found is changed and saved in its own place; \<open>Promise.all\<close> starts every save,
  the ones that do not throw take effect, and one that throws fails the step.
\<close>

definition leaveGroup :: "oid \<Rightarrow> group \<Rightarrow> group" where
  "leaveGroup uid g =
     g\<lparr>g_members := remove1 uid (g_members g),
       g_creator := (if g_creator g = Some uid then None else g_creator g)\<rparr>"

definition leaveGroups :: "del_env \<Rightarrow> user \<Rightarrow> step" where
  "leaveGroups e usr s =
     (if d_db_fails e FindGroups then (Inl StoreError, s)
      else
        (let found = (\<lambda>g. u_id usr \<in> set (g_members g));
             s1 = s\<lparr>groups := map (\<lambda>g. if found g \<and> \<not> d_db_fails e (SaveGroup (g_id g))
                                       then leaveGroup (u_id usr) g else g) (groups s)\<rparr>
         in if list_ex (\<lambda>g. found g \<and> d_db_fails e (SaveGroup (g_id g))) (groups s)
            then (Inl StoreError, s1) else (Inr (), s1)))"

definition storeCall :: "del_env \<Rightarrow> db_site \<Rightarrow> (state \<Rightarrow> state) \<Rightarrow> step" where
  "storeCall e site f s = (if d_db_fails e site then (Inl StoreError, s) else (Inr (), f s))"

definition cleanupSteps :: "del_env \<Rightarrow> user \<Rightarrow> step list" where
  "cleanupSteps e usr =
     [redisCleanup e usr,
      forceDisconnect e usr,
      deleteMessages e usr,
      leaveGroups e usr,
      storeCall e DeleteFriendsFrom
        (\<lambda>s. s\<lparr>friends := filter (\<lambda>f. f_from f \<noteq> u_id usr) (friends s)\<rparr>),
      storeCall e DeleteFriendsTo
        (\<lambda>s. s\<lparr>friends := filter (\<lambda>f. f_to f \<noteq> u_id usr) (friends s)\<rparr>),
      storeCall e DeleteSockets
        (\<lambda>s. s\<lparr>sockets := filter (\<lambda>d. s_user d \<noteq> Some (u_id usr)) (sockets s)\<rparr>),
      storeCall e DeleteNotifications
        (\<lambda>s. s\<lparr>notifications := filter (\<lambda>n. n_user n \<noteq> u_id usr) (notifications s)\<rparr>)]"

text \<open>\<open>User.deleteOne({ _id: user._id })\<close>: the first document with the id goes.\<close>

fun remove_first :: "('a \<Rightarrow> bool) \<Rightarrow> 'a list \<Rightarrow> 'a list" where
  "remove_first P [] = []"
| "remove_first P (x # xs) = (if P x then xs else x # remove_first P xs)"

definition deleteUserDoc :: "del_env \<Rightarrow> user \<Rightarrow> step" where
  "deleteUserDoc e usr =
     storeCall e DeleteUserDoc (\<lambda>s. s\<lparr>users := remove_first (\<lambda>u. u_id u = u_id usr) (users s)\<rparr>)"

definition deleteUser :: "del_env \<Rightarrow> string \<Rightarrow> step" where
  "deleteUser e username s =
     (if username = [] then (Inl UsernameEmpty, s)
      else if d_db_fails e FindUser then (Inl StoreError, s)
      else case findUserByName s username of
        None \<Rightarrow> (Inl UserNotExist, s)
      | Some usr \<Rightarrow> run_steps (cleanupSteps e usr @ [deleteUserDoc e usr]) s)"


section \<open>Example stores\<close>

text \<open>Concrete stores, connections and environments on which the theorems are run.\<close>

definition empty_store :: state where
  "empty_store =
     \<lparr>users = [], groups = [], friends = [], messages = [], histories = [], sockets = [],
      notifications = [], bots = [], conversations = [], redis = (\<lambda>k. None), next_id = 100,
      live = [], events = [], logged = []\<rparr>"

definition bot1 :: bot where
  "bot1 =
     \<lparr>b_id = 3, b_name = ''fiora'', b_avatar = ''a.png'', b_enabled = True,
      b_config = \<lparr>llmUrl = ''http://llm'', apiKey = ''sk-1'', model = ''m1'',
                  systemPrompt = ''sys'', temperature = 7 / 10, maxTokens = 2000,
                  maxHistory = 2\<rparr>,
      b_creator = None\<rparr>"

definition bot_store :: state where
  "bot_store = empty_store\<lparr>bots := [bot1]\<rparr>"

definition admin_sock :: socket_ctx where
  "admin_sock = \<lparr>sk_id = ''k1'', sk_user = Some 9, sk_isAdmin = True, sk_ip = ''1.2.3.4'',
                 sk_rooms = []\<rparr>"

definition plain_sock :: socket_ctx where
  "plain_sock = \<lparr>sk_id = ''k2'', sk_user = Some 7, sk_isAdmin = False, sk_ip = ''1.2.3.4'',
                 sk_rooms = []\<rparr>"

definition env_with :: "llm_response \<Rightarrow> bot_env" where
  "env_with r =
     \<lparr>e_now = 5000, e_tempMessageId = ''t1'', e_llm = (\<lambda>rq. r), e_randomAvatar = ''r.png'',
      e_match = (\<lambda>name content. Some content)\<rparr>"

definition zero_history :: config_input where
  "zero_history =
     \<lparr>ci_llmUrl = ''http://llm'', ci_apiKey = ''sk-1'', ci_model = ''m1'',
      ci_systemPrompt = None, ci_temperature = None, ci_maxTokens = None,
      ci_maxHistory = Some 0\<rparr>"

definition group_store :: state where
  "group_store =
     bot_store\<lparr>groups := [\<lparr>g_id = 20, g_name = ''room'', g_avatar = [], g_creator = Some 9,
                             g_members = [9, 7], g_isDefault = True, g_createTime = 0\<rparr>]\<rparr>"

section \<open>Notions the statements use\<close>

text \<open>The turns stored for a triple: those of its conversation, none when it has none.\<close>

definition storedTurns :: "state \<Rightarrow> oid \<Rightarrow> oid \<Rightarrow> oid option \<Rightarrow> ConversationMessage list" where
  "storedTurns s u b g = (case findConversation s u b g of None \<Rightarrow> [] | Some c \<Rightarrow> cv_messages c)"

text \<open>A service whose stream breaks after two fragments, and one that answers.\<close>

definition broken_env :: bot_env where
  "broken_env = env_with (Streamed [Delta ''a'', Delta ''b''] (StreamError ''reset''))"

definition ok_env :: bot_env where
  "ok_env = env_with (Streamed [Delta ''Hel'', Delta ''lo'', Done] StreamEnd)"

text \<open>
  The administrator sets \<open>maxHistory\<close> of the configured bot to 0, and a user then has
  two exchanges with it.
\<close>

definition zero_store :: state where
  "zero_store = snd (configureBot ok_env admin_sock ''fiora'' None zero_history bot_store)"

definition after_one :: state where
  "after_one = snd (sendMessageToBot ok_env 7 ''hi'' zero_store)"

definition after_two :: state where
  "after_two = snd (sendMessageToBot ok_env 7 ''more'' after_one)"

text \<open>
  A server with one user, alice, in the default group, a connection that is not logged
  in yet, and a directory that rejects everybody.
\<close>

definition config0 :: server_config where
  "config0 = \<lparr>jwtSecret = ''s3cret'', tokenExpiresTime = 604800000, disableRegister = False,
               administrator = [9], ldap = None\<rparr>"

definition auth0 :: auth_env where
  "auth0 =
     \<lparr>a_now = 200000000, a_config = config0, a_redis_fails = (\<lambda>site. False),
      a_username_valid = (\<lambda>n. length n \<le> 20), a_randomAvatar = ''r.png'',
      a_salt = ''salt'', a_hash = (\<lambda>pw salt. salt @ pw),
      a_compare = (\<lambda>pw h. h = ''salt'' @ pw),
      a_ldap = \<lparr>ls_bind = (\<lambda>dn pw. False), ls_search = (\<lambda>base flt. None),
                ls_unbind = True\<rparr>\<rparr>"

definition alice :: user where
  "alice =
     \<lparr>u_id = 42, u_username = ''alice'', u_salt = ''salt'', u_password = ''saltpw'',
      u_avatar = ''a.png'', u_tag = [], u_createTime = 0, u_lastLoginTime = 0,
      u_lastLoginIp = ''1.2.3.4'', u_authProvider = []\<rparr>"

definition lobby :: group where
  "lobby = \<lparr>g_id = 20, g_name = ''fiora'', g_avatar = [], g_creator = Some 42,
             g_members = [42], g_isDefault = True, g_createTime = 0\<rparr>"

definition auth_store :: state where
  "auth_store =
     empty_store\<lparr>users := [alice], groups := [lobby],
       sockets := [\<lparr>s_id = ''k3'', s_user = None, s_os = [], s_browser = [],
                    s_environment = [], s_ip = ''1.2.3.4''\<rparr>]\<rparr>"

definition fresh_sock :: socket_ctx where
  "fresh_sock = \<lparr>sk_id = ''k3'', sk_user = None, sk_isAdmin = False, sk_ip = ''1.2.3.4'',
                 sk_rooms = []\<rparr>"

definition envA :: client_env where
  "envA = \<lparr>ce_os = ''linux'', ce_browser = ''firefox'', ce_environment = ''envA''\<rparr>"

definition envB :: client_env where
  "envB = \<lparr>ce_os = ''linux'', ce_browser = ''firefox'', ce_environment = ''envB''\<rparr>"

definition quiet_del :: del_env where
  "quiet_del = \<lparr>d_db_fails = (\<lambda>site. False), d_redis_del_fails = (\<lambda>k. False)\<rparr>"

text \<open>The store after alice has been deleted.\<close>

definition purged_store :: state where
  "purged_store = snd (deleteUser quiet_del ''alice'' auth_store)"

text \<open>The count stored for an address, as the routes read it (\<open>None\<close> is \<open>NaN\<close>).\<close>

definition addressCount :: "state \<Rightarrow> string \<Rightarrow> int option" where
  "addressCount s ip = parseInt (str_or (redis s (NewRegisteredUserIpKey ip)) ''0'')"

text \<open>A connection whose address is the empty string, and stores with a counter.\<close>

definition noaddr_sock :: socket_ctx where
  "noaddr_sock = \<lparr>sk_id = ''k3'', sk_user = None, sk_isAdmin = False, sk_ip = [],
                  sk_rooms = []\<rparr>"

definition counted_store :: "string \<Rightarrow> state" where
  "counted_store v =
     auth_store\<lparr>redis := (redis auth_store)(NewRegisteredUserIpKey ''1.2.3.4'' \<mapsto> v)\<rparr>"

text \<open>
  A server with the directory enabled, a directory that knows carol, the same server
  with Redis unreachable, and a store without the default group.
\<close>

definition ldap_cfg :: ldap_config where
  "ldap_cfg = \<lparr>ldap_enable = True, ldap_url = ''ldap://dir'', bindDN = ''cn=svc'',
                bindCredentials = ''svcpw'', searchBase = ''dc=x'',
                searchFilter = ''(uid={{username}})''\<rparr>"

definition directory :: ldap_server where
  "directory =
     \<lparr>ls_bind = (\<lambda>dn pw. (dn = ''cn=svc'' \<and> pw = ''svcpw'')
                          \<or> (dn = ''uid=carol'' \<and> pw = ''carolpw'')),
      ls_search = (\<lambda>base flt. if flt = ''(uid=carol)'' then Some [''uid=carol''] else Some []),
      ls_unbind = True\<rparr>"

definition ldap_env :: auth_env where
  "ldap_env = auth0\<lparr>a_config := config0\<lparr>ldap := Some ldap_cfg\<rparr>, a_ldap := directory\<rparr>"

definition redis_down_env :: auth_env where
  "redis_down_env = ldap_env\<lparr>a_redis_fails := (\<lambda>site. True)\<rparr>"


text \<open>
  What the join of the default group makes of the group: the creator is set when there
  was none, and the new identity is the last member.
\<close>

definition joined :: "group \<Rightarrow> oid \<Rightarrow> group" where
  "joined g uid = fst (joinDefaultGroup g uid empty_store)"







section \<open>The bot configuration never leaves the server in clear\<close>

lemma getBotConfig_masks: "\<not> sk_isAdmin sock \<Longrightarrow> getBotConfig sock s = Some v \<Longrightarrow> apiKey (bv_config v) = ''***''"
    by (auto simp: getBotConfig_def mask_view_def split: option.splits)

lemma configureBot_masks: "configureBot e caller name avatar cfg s = (Inr v, s') \<Longrightarrow> apiKey (bv_config v) = ''***''"
    by (auto simp: configureBot_def mask_view_def Let_def split: if_splits option.splits)

lemma getBotConfig_admin: "sk_isAdmin sock \<Longrightarrow> findBot s = Some b \<Longrightarrow> \<exists>v. getBotConfig sock s = Some v \<and> apiKey (bv_config v) = apiKey (b_config b)"
    by (simp add: getBotConfig_def mask_view_def)

lemma mask_view_cong: "mask_view b ''***'' = mask_view b' ''***''"
    if "b\<lparr>b_config := (b_config b)\<lparr>apiKey := []\<rparr>\<rparr> = b'\<lparr>b_config := (b_config b')\<lparr>apiKey := []\<rparr>\<rparr>"
    for b b' :: bot
  proof -
    have "b_id b = b_id b'" "b_name b = b_name b'" "b_avatar b = b_avatar b'"
      "b_enabled b = b_enabled b'"
      using arg_cong [OF that, of b_id] arg_cong [OF that, of b_name]
        arg_cong [OF that, of b_avatar] arg_cong [OF that, of b_enabled]
      by simp_all
    moreover have c: "(b_config b)\<lparr>apiKey := []\<rparr> = (b_config b')\<lparr>apiKey := []\<rparr>"
      using arg_cong [OF that, of b_config] by simp
    have "(b_config b)\<lparr>apiKey := ''***''\<rparr> = (b_config b')\<lparr>apiKey := ''***''\<rparr>"
      using arg_cong [OF c, of "\<lambda>c. c\<lparr>apiKey := ''***''\<rparr>"] by simp
    ultimately show ?thesis by (simp add: mask_view_def)
  qed


lemma getBotConfig_noninterference:
  assumes na: "\<not> sk_isAdmin sock"
    and eq: "map (\<lambda>b. b\<lparr>b_config := (b_config b)\<lparr>apiKey := []\<rparr>\<rparr>) (bots s)
         = map (\<lambda>b. b\<lparr>b_config := (b_config b)\<lparr>apiKey := []\<rparr>\<rparr>) (bots s2)"
  shows "getBotConfig sock s = getBotConfig sock s2"
proof (cases "bots s")
  case Nil
  with eq have "bots s2 = []" by simp
  with Nil show ?thesis by (simp add: getBotConfig_def findBot_def)
next
  case (Cons b bs)
  with eq obtain b' bs' where s2: "bots s2 = b' # bs'"
    and bb: "b\<lparr>b_config := (b_config b)\<lparr>apiKey := []\<rparr>\<rparr> = b'\<lparr>b_config := (b_config b')\<lparr>apiKey := []\<rparr>\<rparr>"
    by (cases "bots s2") simp_all
  from mask_view_cong [OF bb] Cons s2 na show ?thesis by (simp add: getBotConfig_def findBot_def)
qed

text \<open>
  C9. For a caller that is not an administrator, the configuration \<open>getBotConfig\<close>
  returns has the apiKey \<open>***\<close> whatever the stored key is: two stores whose bots differ
  only in the stored apiKey give the same answer. What \<open>configureBot\<close> returns has the
  apiKey \<open>***\<close> for every caller. An administrator gets the stored key from
  \<open>getBotConfig\<close>.
\<close>

theorem apiKey_masked:
  "(\<not> sk_isAdmin sock \<longrightarrow>
      (\<forall>v. getBotConfig sock s = Some v \<longrightarrow> apiKey (bv_config v) = ''***'') \<and>
      (map (\<lambda>b. b\<lparr>b_config := (b_config b)\<lparr>apiKey := []\<rparr>\<rparr>) (bots s)
         = map (\<lambda>b. b\<lparr>b_config := (b_config b)\<lparr>apiKey := []\<rparr>\<rparr>) (bots s2)
       \<longrightarrow> getBotConfig sock s = getBotConfig sock s2))
   \<and> (\<forall>v s'. configureBot e caller name avatar cfg s = (Inr v, s')
         \<longrightarrow> apiKey (bv_config v) = ''***'')
   \<and> (sk_isAdmin sock \<longrightarrow>
        (\<forall>b. findBot s = Some b \<longrightarrow>
           (\<exists>v. getBotConfig sock s = Some v \<and> apiKey (bv_config v) = apiKey (b_config b))))"
  using getBotConfig_masks configureBot_masks getBotConfig_admin
    getBotConfig_noninterference
  by blast

theorem apiKey_masked_witness:
  "getBotConfig plain_sock bot_store
     = getBotConfig plain_sock
         (bot_store\<lparr>bots := [bot1\<lparr>b_config := (b_config bot1)\<lparr>apiKey := ''sk-2''\<rparr>\<rparr>]\<rparr>)
   \<and> map (apiKey \<circ> bv_config) (case getBotConfig plain_sock bot_store of
                                   None \<Rightarrow> [] | Some v \<Rightarrow> [v]) = [''***'']"
proof -
  let ?s2 = "bot_store\<lparr>bots := [bot1\<lparr>b_config := (b_config bot1)\<lparr>apiKey := ''sk-2''\<rparr>\<rparr>]\<rparr>"
  note th = apiKey_masked [of plain_sock bot_store ?s2
      "env_with (PostFails [])" admin_sock "''fiora''" None zero_history]
  have na: "\<not> sk_isAdmin plain_sock" by (simp add: plain_sock_def)
  have eq: "map (\<lambda>b. b\<lparr>b_config := (b_config b)\<lparr>apiKey := []\<rparr>\<rparr>) (bots bot_store)
         = map (\<lambda>b. b\<lparr>b_config := (b_config b)\<lparr>apiKey := []\<rparr>\<rparr>) (bots ?s2)"
    by (simp add: bot_store_def)
  obtain v where v: "getBotConfig plain_sock bot_store = Some v"
    by (simp add: getBotConfig_def findBot_def bot_store_def)
  from th na eq have i: "getBotConfig plain_sock bot_store = getBotConfig plain_sock ?s2"
    by blast
  from th na v have k: "apiKey (bv_config v) = ''***''" by blast
  have "map (apiKey \<circ> bv_config) (case getBotConfig plain_sock bot_store of
                                   None \<Rightarrow> [] | Some v \<Rightarrow> [v]) = [''***'']"
    by (simp add: v k)
  then show ?thesis by (rule conjI [OF i])
qed
section \<open>Conversations and the streaming relay\<close>

lemma slice_neg: "0 < n \<Longrightarrow> slice xs (- n) = drop (length xs - nat n) xs"
  by (auto simp: slice_def Let_def max_def nat_diff_distrib'
      intro: arg_cong [where f = "\<lambda>k. drop k xs"])

lemma slice_zero: "slice xs 0 = xs"
  by (simp add: slice_def)

lemma trimHistory_pos: "0 < h \<Longrightarrow> trimHistory h ms = drop (length ms - nat (2 * h)) ms"
  by (auto simp: trimHistory_def Let_def slice_neg mult.commute)

lemma trimHistory_length: "0 < h \<Longrightarrow> int (length (trimHistory h ms)) \<le> 2 * h"
  by (simp add: trimHistory_pos)

lemma trimHistory_zero: "trimHistory 0 ms = ms"
  by (simp add: trimHistory_def slice_zero)

lemma find_replace:
  "find P xs = Some c0 \<Longrightarrow> P c \<Longrightarrow> cv_id c = cv_id c0 \<Longrightarrow>
   find P (map (\<lambda>d. if cv_id d = cv_id c then c else d) xs) = Some c"
  by (induction xs) (auto split: if_splits)

lemma find_append_None: "find P xs = None \<Longrightarrow> find P (xs @ ys) = find P ys"
  by (induction xs) (auto split: if_splits)

lemma loadConversation_found:
  "loadConversation e u b g s = (conv, s0) \<Longrightarrow> findConversation s0 u b g = Some conv"
  by (auto simp: loadConversation_def findConversation_def createConversation_def Let_def
      find_append_None split: option.splits)

lemma loadConversation_key:
  "loadConversation e u b g s = (conv, s0) \<Longrightarrow>
   cv_user conv = u \<and> cv_bot conv = b \<and> cv_group conv = g"
  by (auto simp: loadConversation_def createConversation_def findConversation_def Let_def
      split: option.splits dest: find_Some_iff [THEN iffD1])

lemma loadConversation_turns:
  "loadConversation e u b g s = (conv, s0) \<Longrightarrow>
   cv_messages conv = storedTurns s u b g \<and> storedTurns s0 u b g = storedTurns s u b g"
  by (auto simp: loadConversation_def createConversation_def storedTurns_def Let_def
      findConversation_def find_append_None split: option.splits)

lemma loadConversation_frame:
  "loadConversation e u b g s = (conv, s0) \<Longrightarrow>
   messages s0 = messages s \<and> events s0 = events s \<and> logged s0 = logged s \<and>
   users s0 = users s"
  by (auto simp: loadConversation_def createConversation_def Let_def split: option.splits)

lemma chat_error_form: "chat sv rq = (chunks, Inl err) \<Longrightarrow> \<exists>cause. err = LLMCallFailed cause"
  by (auto simp: chat_def split: llm_response.splits prod.splits sum.splits)

text \<open>The \<open>catch\<close> of an exchange: what the store is after a failed call.\<close>

lemma exchange_failure:
  "chat (e_llm e) (relayRequest e b conv msg) = (chunks, Inl err) \<Longrightarrow>
   exchange e b conv msg room grp wrap tag s =
     (Inl (AIReplyFailed err),
      s\<lparr>events := events s @ streamEvents e b room grp chunks
            @ [BotMessageError room (e_tempMessageId e) err],
        logged := logged s @ [(tag, err)]\<rparr>)"
  by (simp add: exchange_def Let_def emit_def logError_def)

text \<open>The success path of an exchange: the stored conversation is the trimmed one.\<close>

lemma exchange_success:
  assumes ch: "chat (e_llm e) (relayRequest e b conv msg) = (chunks, Inr full)"
    and fc: "findConversation s (cv_user conv) (cv_bot conv) (cv_group conv) = Some conv"
  shows "\<exists>mid s'. exchange e b conv msg room grp wrap tag s = (Inr mid, s') \<and>
     storedTurns s' (cv_user conv) (cv_bot conv) (cv_group conv) =
       trimHistory (maxHistory (b_config b))
         (cv_messages conv @ [userTurn e msg, assistantTurn e full])"
proof -
  define conv2 where "conv2 = (pushUserTurn e conv msg)\<lparr>cv_messages :=
      trimHistory (maxHistory (b_config b))
        (cv_messages (pushUserTurn e conv msg) @ [assistantTurn e full]),
      cv_lastActiveTime := e_now e\<rparr>"
  obtain r s' where ex: "exchange e b conv msg room grp wrap tag s = (r, s')"
    by (cases "exchange e b conv msg room grp wrap tag s")
  have r: "\<exists>mid. r = Inr mid"
    using ex ch by (auto simp: exchange_def Let_def createMessage_def)
  have cs: "conversations s' =
      map (\<lambda>d. if cv_id d = cv_id conv2 then conv2 else d) (conversations s)"
    using ex ch
    by (auto simp: exchange_def Let_def emit_def createMessage_def saveConversation_def
        conv2_def)
  have "findConversation s' (cv_user conv) (cv_bot conv) (cv_group conv) = Some conv2"
    unfolding findConversation_def cs
    by (rule find_replace [where ?c0.0 = conv])
      (use fc in \<open>simp_all add: findConversation_def conv2_def pushUserTurn_def\<close>)
  moreover have "cv_messages conv2 = trimHistory (maxHistory (b_config b))
        (cv_messages conv @ [userTurn e msg, assistantTurn e full])"
    by (simp add: conv2_def pushUserTurn_def)
  ultimately show ?thesis using ex r by (auto simp: storedTurns_def)
qed

lemma sendMessageToBot_failure:
  assumes "content \<noteq> []" "findEnabledBot s = Some b"
    and ld: "loadConversation e u (b_id b) None s = (conv, s0)"
    and ch: "chat (e_llm e) (relayRequest e b conv content) = (chunks, Inl err)"
  shows "sendMessageToBot e u content s =
     (Inl (AIReplyFailed err),
      s0\<lparr>events := events s0 @ streamEvents e b u None chunks
            @ [BotMessageError u (e_tempMessageId e) err],
         logged := logged s0 @ [(''sendMessageToBot'', err)]\<rparr>)"
  using assms by (simp add: sendMessageToBot_def exchange_failure)

lemma mentionBotInGroup_failure:
  assumes "content \<noteq> []" "findGroupById s gid = Some grp" "u \<in> set (g_members grp)"
    "findEnabledBot s = Some b" "e_match e (b_name b) content = Some captured"
    and ld: "loadConversation e u (b_id b) (Some gid) s = (conv, s0)"
    and ch: "chat (e_llm e) (relayRequest e b conv (trim captured)) = (chunks, Inl err)"
  shows "mentionBotInGroup e u (ValidId gid) content s =
     (Inl (AIReplyFailed err),
      s0\<lparr>events := events s0 @ streamEvents e b gid (Some gid) chunks
            @ [BotMessageError gid (e_tempMessageId e) err],
         logged := logged s0 @ [(''mentionBotInGroup'', err)]\<rparr>)"
  using assms by (simp add: mentionBotInGroup_def exchange_failure Let_def)

lemma storedTurns_cong:
  "conversations s' = conversations s \<Longrightarrow> storedTurns s' u b g = storedTurns s u b g"
  by (simp add: storedTurns_def findConversation_def)

text \<open>
  C2. In both chat routes (\<open>sendMessageToBot\<close> to the user, \<open>mentionBotInGroup\<close> to the
  group), when the completion call fails, whatever the cause and however many fragments
  were forwarded before: the route throws; after the forwarded fragments, the error
  event with the correlation id and the cause is emitted to the room; the stored
  conversations are those the route loaded (no assistant turn is added); and no Message
  is created.
\<close>

theorem relay_failure:
  "(content \<noteq> [] \<and> findEnabledBot s = Some b \<and>
    loadConversation e u (b_id b) None s = (conv, s0) \<and>
    chat (e_llm e) (relayRequest e b conv content) = (chunks, Inl err)
    \<longrightarrow> (\<exists>s'. sendMessageToBot e u content s = (Inl (AIReplyFailed err), s') \<and>
           events s' = events s @ streamEvents e b u None chunks
                         @ [BotMessageError u (e_tempMessageId e) err] \<and>
           (\<exists>cause. err = LLMCallFailed cause) \<and>
           conversations s' = conversations s0 \<and>
           storedTurns s' u (b_id b) None = storedTurns s u (b_id b) None \<and>
           messages s' = messages s))
   \<and> (content \<noteq> [] \<and> findGroupById s gid = Some grp \<and> u \<in> set (g_members grp) \<and>
      findEnabledBot s = Some b \<and> e_match e (b_name b) content = Some captured \<and>
      loadConversation e u (b_id b) (Some gid) s = (gconv, gs0) \<and>
      chat (e_llm e) (relayRequest e b gconv (trim captured)) = (gchunks, Inl gerr)
      \<longrightarrow> (\<exists>s'. mentionBotInGroup e u (ValidId gid) content s = (Inl (AIReplyFailed gerr), s') \<and>
             events s' = events s @ streamEvents e b gid (Some gid) gchunks
                           @ [BotMessageError gid (e_tempMessageId e) gerr] \<and>
             (\<exists>cause. gerr = LLMCallFailed cause) \<and>
             conversations s' = conversations gs0 \<and>
             storedTurns s' u (b_id b) (Some gid) = storedTurns s u (b_id b) (Some gid) \<and>
             messages s' = messages s))"
proof (intro conjI impI; elim conjE)
  assume a: "content \<noteq> []" "findEnabledBot s = Some b"
    and ld: "loadConversation e u (b_id b) None s = (conv, s0)"
    and ch: "chat (e_llm e) (relayRequest e b conv content) = (chunks, Inl err)"
  let ?s' = "s0\<lparr>events := events s0 @ streamEvents e b u None chunks
            @ [BotMessageError u (e_tempMessageId e) err],
         logged := logged s0 @ [(''sendMessageToBot'', err)]\<rparr>"
  have "sendMessageToBot e u content s = (Inl (AIReplyFailed err), ?s')"
    by (rule sendMessageToBot_failure [OF a ld ch])
  moreover have "events ?s' = events s @ streamEvents e b u None chunks
                         @ [BotMessageError u (e_tempMessageId e) err]"
    "messages ?s' = messages s" "conversations ?s' = conversations s0"
    using loadConversation_frame [OF ld] by simp_all
  moreover have "storedTurns ?s' u (b_id b) None = storedTurns s u (b_id b) None"
    using loadConversation_turns [OF ld] storedTurns_cong [of ?s' s0] by simp
  ultimately show "\<exists>s'. sendMessageToBot e u content s = (Inl (AIReplyFailed err), s') \<and>
           events s' = events s @ streamEvents e b u None chunks
                         @ [BotMessageError u (e_tempMessageId e) err] \<and>
           (\<exists>cause. err = LLMCallFailed cause) \<and>
           conversations s' = conversations s0 \<and>
           storedTurns s' u (b_id b) None = storedTurns s u (b_id b) None \<and>
           messages s' = messages s"
    using chat_error_form [OF ch] by blast
next
  assume a: "content \<noteq> []" "findGroupById s gid = Some grp" "u \<in> set (g_members grp)"
    "findEnabledBot s = Some b" "e_match e (b_name b) content = Some captured"
    and ld: "loadConversation e u (b_id b) (Some gid) s = (gconv, gs0)"
    and ch: "chat (e_llm e) (relayRequest e b gconv (trim captured)) = (gchunks, Inl gerr)"
  let ?s' = "gs0\<lparr>events := events gs0 @ streamEvents e b gid (Some gid) gchunks
            @ [BotMessageError gid (e_tempMessageId e) gerr],
         logged := logged gs0 @ [(''mentionBotInGroup'', gerr)]\<rparr>"
  have "mentionBotInGroup e u (ValidId gid) content s = (Inl (AIReplyFailed gerr), ?s')"
    by (rule mentionBotInGroup_failure [OF a ld ch])
  moreover have "events ?s' = events s @ streamEvents e b gid (Some gid) gchunks
                         @ [BotMessageError gid (e_tempMessageId e) gerr]"
    "messages ?s' = messages s" "conversations ?s' = conversations gs0"
    using loadConversation_frame [OF ld] by simp_all
  moreover have "storedTurns ?s' u (b_id b) (Some gid) = storedTurns s u (b_id b) (Some gid)"
    using loadConversation_turns [OF ld] storedTurns_cong [of ?s' gs0] by simp
  ultimately show "\<exists>s'. mentionBotInGroup e u (ValidId gid) content s
             = (Inl (AIReplyFailed gerr), s') \<and>
             events s' = events s @ streamEvents e b gid (Some gid) gchunks
                           @ [BotMessageError gid (e_tempMessageId e) gerr] \<and>
             (\<exists>cause. gerr = LLMCallFailed cause) \<and>
             conversations s' = conversations gs0 \<and>
             storedTurns s' u (b_id b) (Some gid) = storedTurns s u (b_id b) (Some gid) \<and>
             messages s' = messages s"
    using chat_error_form [OF ch] by blast
qed

lemma findEnabledBot_bot_store: "findEnabledBot bot_store = Some bot1"
  by (simp add: findEnabledBot_def bot_store_def bot1_def empty_store_def)

lemma findEnabledBot_group_store: "findEnabledBot group_store = Some bot1"
  by (simp add: findEnabledBot_def group_store_def bot_store_def bot1_def empty_store_def)

lemma chat_broken_env:
  "chat (e_llm broken_env) rq = ([''a'', ''b''], Inl (LLMCallFailed ''reset''))"
  by (simp add: chat_def broken_env_def env_with_def)

theorem relay_failure_witness:
  "(\<exists>s'. sendMessageToBot broken_env 7 ''hi'' bot_store
            = (Inl (AIReplyFailed (LLMCallFailed ''reset'')), s') \<and>
          events s' = [BotMessageStream 7 ''t1'' ''a'' 3 None, BotMessageStream 7 ''t1'' ''b'' 3 None,
                       BotMessageError 7 ''t1'' (LLMCallFailed ''reset'')] \<and>
          storedTurns s' 7 3 None = [] \<and> messages s' = [])
   \<and> (\<exists>s'. mentionBotInGroup broken_env 7 (ValidId 20) ''@fiora hi'' group_store
            = (Inl (AIReplyFailed (LLMCallFailed ''reset'')), s') \<and>
          events s' = [BotMessageStream 20 ''t1'' ''a'' 3 (Some 20),
                       BotMessageStream 20 ''t1'' ''b'' 3 (Some 20),
                       BotMessageError 20 ''t1'' (LLMCallFailed ''reset'')] \<and>
          storedTurns s' 7 3 (Some 20) = [] \<and> messages s' = [])"
proof -
  let ?ld = "loadConversation broken_env 7 (b_id bot1) None bot_store"
  let ?gld = "loadConversation broken_env 7 (b_id bot1) (Some 20) group_store"
  let ?grp = "\<lparr>g_id = 20, g_name = ''room'', g_avatar = [], g_creator = Some 9,
            g_members = [9, 7], g_isDefault = True, g_createTime = 0\<rparr>"
  have grp: "findGroupById group_store 20 = Some ?grp" "7 \<in> set (g_members ?grp)"
    by (simp_all add: findGroupById_def group_store_def)
  have m: "e_match broken_env (b_name bot1) ''@fiora hi'' = Some ''@fiora hi''"
    by (simp add: broken_env_def env_with_def)
  have base: "events bot_store = []" "messages bot_store = []"
    "storedTurns bot_store 7 3 None = []"
    "events group_store = []" "messages group_store = []"
    "storedTurns group_store 7 3 (Some 20) = []"
    by (simp_all add: bot_store_def group_store_def empty_store_def storedTurns_def
        findConversation_def)
  have ids: "b_id bot1 = 3" "e_tempMessageId broken_env = ''t1''"
    by (simp_all add: bot1_def broken_env_def env_with_def)
  have ne: "''hi'' \<noteq> []" "''@fiora hi'' \<noteq> []" by simp_all
  have ld: "?ld = (fst ?ld, snd ?ld)" "?gld = (fst ?gld, snd ?gld)" by simp_all
  from relay_failure [where content = "''hi''" and s = bot_store and b = bot1
      and e = broken_env and u = 7 and conv = "fst ?ld" and ?s0.0 = "snd ?ld"
      and chunks = "[''a'', ''b'']" and err = "LLMCallFailed ''reset''", THEN conjunct1]
    ne(1) findEnabledBot_bot_store ld(1) chat_broken_env
  obtain s' where "sendMessageToBot broken_env 7 ''hi'' bot_store
            = (Inl (AIReplyFailed (LLMCallFailed ''reset'')), s')"
    "events s' = events bot_store @ streamEvents broken_env bot1 7 None [''a'', ''b'']
        @ [BotMessageError 7 (e_tempMessageId broken_env) (LLMCallFailed ''reset'')]"
    "storedTurns s' 7 (b_id bot1) None = storedTurns bot_store 7 (b_id bot1) None"
    "messages s' = messages bot_store"
    by blast
  then have A: "\<exists>s'. sendMessageToBot broken_env 7 ''hi'' bot_store
            = (Inl (AIReplyFailed (LLMCallFailed ''reset'')), s') \<and>
          events s' = [BotMessageStream 7 ''t1'' ''a'' 3 None, BotMessageStream 7 ''t1'' ''b'' 3 None,
                       BotMessageError 7 ''t1'' (LLMCallFailed ''reset'')] \<and>
          storedTurns s' 7 3 None = [] \<and> messages s' = []"
    by (simp add: base ids streamEvents_def)
  from relay_failure [where content = "''@fiora hi''" and s = group_store and b = bot1
      and e = broken_env and u = 7 and gid = 20 and grp = ?grp and captured = "''@fiora hi''"
      and gconv = "fst ?gld" and ?gs0.0 = "snd ?gld"
      and gchunks = "[''a'', ''b'']" and gerr = "LLMCallFailed ''reset''", THEN conjunct2]
    ne(2) findEnabledBot_group_store ld(2) chat_broken_env grp m
  obtain s' where "mentionBotInGroup broken_env 7 (ValidId 20) ''@fiora hi'' group_store
            = (Inl (AIReplyFailed (LLMCallFailed ''reset'')), s')"
    "events s' = events group_store @ streamEvents broken_env bot1 20 (Some 20) [''a'', ''b'']
        @ [BotMessageError 20 (e_tempMessageId broken_env) (LLMCallFailed ''reset'')]"
    "storedTurns s' 7 (b_id bot1) (Some 20) = storedTurns group_store 7 (b_id bot1) (Some 20)"
    "messages s' = messages group_store"
    by blast
  then have B: "\<exists>s'. mentionBotInGroup broken_env 7 (ValidId 20) ''@fiora hi'' group_store
            = (Inl (AIReplyFailed (LLMCallFailed ''reset'')), s') \<and>
          events s' = [BotMessageStream 20 ''t1'' ''a'' 3 (Some 20),
                       BotMessageStream 20 ''t1'' ''b'' 3 (Some 20),
                       BotMessageError 20 ''t1'' (LLMCallFailed ''reset'')] \<and>
          storedTurns s' 7 3 (Some 20) = [] \<and> messages s' = []"
    by (simp add: base ids streamEvents_def)
  from A B show ?thesis by (rule conjI)
qed

text \<open>
  C1 as the specification states it: after an exchange whose completion call failed,
  the stored Conversation contains the user turn. It does not: the user turn is pushed
  onto the loaded document only, and the document is saved on the success path alone.
  Here the call fails after two fragments; the conversation the route created is stored
  without any turn.
\<close>

theorem user_turn_persisted_counterexample:
  "fst (sendMessageToBot broken_env 7 ''hi'' bot_store)
     = Inl (AIReplyFailed (LLMCallFailed ''reset''))
   \<and> map cv_messages (conversations (snd (sendMessageToBot broken_env 7 ''hi'' bot_store))) = [[]]
   \<and> storedTurns (snd (sendMessageToBot broken_env 7 ''hi'' bot_store)) 7 3 None = []"
  by (simp add: sendMessageToBot_def findEnabledBot_def loadConversation_def
      findConversation_def createConversation_def exchange_def chat_broken_env Let_def
      emit_def logError_def storedTurns_def bot_store_def empty_store_def bot1_def)

text \<open>
  C1, amended. When the completion call fails after the user turn has been pushed, the
  route throws, and the stored Conversation of the triple exists with exactly the turns
  it had before the exchange (none, when the exchange created it): no assistant turn
  is added, and the user turn, which is on the in-memory document only, is not stored.
\<close>

theorem failed_exchange_keeps_stored_turns:
  assumes "content \<noteq> []" and "findEnabledBot s = Some b"
    and "loadConversation e u (b_id b) None s = (conv, s0)"
    and "chat (e_llm e) (relayRequest e b conv content) = (chunks, Inl err)"
  shows "\<exists>s'. sendMessageToBot e u content s = (Inl (AIReplyFailed err), s') \<and>
           (\<exists>c. findConversation s' u (b_id b) None = Some c \<and>
                cv_messages c = storedTurns s u (b_id b) None) \<and>
           cv_messages (pushUserTurn e conv content)
             = storedTurns s u (b_id b) None @ [userTurn e content]"
proof -
  let ?s' = "s0\<lparr>events := events s0 @ streamEvents e b u None chunks
            @ [BotMessageError u (e_tempMessageId e) err],
         logged := logged s0 @ [(''sendMessageToBot'', err)]\<rparr>"
  have "sendMessageToBot e u content s = (Inl (AIReplyFailed err), ?s')"
    by (rule sendMessageToBot_failure [OF assms])
  moreover have "findConversation ?s' u (b_id b) None = Some conv"
    using loadConversation_found [OF assms(3)] by (simp add: findConversation_def)
  moreover have "cv_messages conv = storedTurns s u (b_id b) None"
    using loadConversation_turns [OF assms(3)] by simp
  ultimately show ?thesis by (simp add: pushUserTurn_def)
qed

theorem failed_exchange_keeps_stored_turns_witness:
  "\<exists>s'. sendMessageToBot broken_env 7 ''hi'' bot_store
           = (Inl (AIReplyFailed (LLMCallFailed ''reset'')), s') \<and>
        (\<exists>c. findConversation s' 7 3 None = Some c \<and> cv_messages c = [])"
proof -
  let ?ld = "loadConversation broken_env 7 (b_id bot1) None bot_store"
  have ne: "''hi'' \<noteq> []" by simp
  have ld: "?ld = (fst ?ld, snd ?ld)" by simp
  have base: "storedTurns bot_store 7 3 None = []"
    by (simp add: bot_store_def empty_store_def storedTurns_def findConversation_def)
  have ids: "b_id bot1 = 3" by (simp add: bot1_def)
  from failed_exchange_keeps_stored_turns [OF ne findEnabledBot_bot_store ld chat_broken_env]
  have "\<exists>s'. sendMessageToBot broken_env 7 ''hi'' bot_store
           = (Inl (AIReplyFailed (LLMCallFailed ''reset'')), s') \<and>
        (\<exists>c. findConversation s' 7 3 None = Some c \<and> cv_messages c = []) \<and>
        cv_messages (pushUserTurn broken_env (fst ?ld) ''hi'') = [] @ [userTurn broken_env ''hi'']"
    by (simp add: base ids)
  then show ?thesis by blast
qed

text \<open>
  What the trim does when \<open>maxHistory\<close> is positive: after a completed exchange the
  stored turns are the last \<open>2 * maxHistory\<close> of the earlier turns followed by the new
  user and assistant turns, so the oldest are dropped and the order is kept.
\<close>

lemma completed_exchange_trims:
  assumes pos: "0 < maxHistory (b_config b)"
    and ch: "chat (e_llm e) (relayRequest e b conv msg) = (chunks, Inr full)"
    and fc: "findConversation s (cv_user conv) (cv_bot conv) (cv_group conv) = Some conv"
  shows "\<exists>mid s'. exchange e b conv msg room grp wrap tag s = (Inr mid, s') \<and>
     storedTurns s' (cv_user conv) (cv_bot conv) (cv_group conv) =
       drop (length (cv_messages conv) + 2 - nat (2 * maxHistory (b_config b)))
         (cv_messages conv @ [userTurn e msg, assistantTurn e full]) \<and>
     int (length (storedTurns s' (cv_user conv) (cv_bot conv) (cv_group conv)))
       \<le> 2 * maxHistory (b_config b)"
proof -
  from exchange_success [OF ch fc, of room grp wrap tag] obtain mid s'
    where ex: "exchange e b conv msg room grp wrap tag s = (Inr mid, s')"
      and st: "storedTurns s' (cv_user conv) (cv_bot conv) (cv_group conv) =
       trimHistory (maxHistory (b_config b))
         (cv_messages conv @ [userTurn e msg, assistantTurn e full])"
    by blast
  from st have "storedTurns s' (cv_user conv) (cv_bot conv) (cv_group conv) =
       drop (length (cv_messages conv) + 2 - nat (2 * maxHistory (b_config b)))
         (cv_messages conv @ [userTurn e msg, assistantTurn e full])"
    by (simp add: trimHistory_pos [OF pos])
  moreover from st have "int (length (storedTurns s' (cv_user conv) (cv_bot conv) (cv_group conv)))
       \<le> 2 * maxHistory (b_config b)"
    using trimHistory_length [OF pos] by simp
  ultimately show ?thesis using ex by blast
qed

lemma sendMessageToBot_trims:
  assumes "0 < maxHistory (b_config b)" "content \<noteq> []" "findEnabledBot s = Some b"
    and ld: "loadConversation e u (b_id b) None s = (conv, s0)"
    and ch: "chat (e_llm e) (relayRequest e b conv content) = (chunks, Inr full)"
  shows "\<exists>mid s'. sendMessageToBot e u content s = (Inr mid, s') \<and>
     storedTurns s' u (b_id b) None =
       drop (length (storedTurns s u (b_id b) None) + 2 - nat (2 * maxHistory (b_config b)))
         (storedTurns s u (b_id b) None @ [userTurn e content, assistantTurn e full]) \<and>
     int (length (storedTurns s' u (b_id b) None)) \<le> 2 * maxHistory (b_config b)"
proof -
  have k: "cv_user conv = u" "cv_bot conv = b_id b" "cv_group conv = None"
    using loadConversation_key [OF ld] by simp_all
  have fc: "findConversation s0 (cv_user conv) (cv_bot conv) (cv_group conv) = Some conv"
    using loadConversation_found [OF ld] by (simp add: k)
  from completed_exchange_trims [OF assms(1) ch fc, of u None "\<lambda>r. r" "''sendMessageToBot''"]
  show ?thesis using assms(2,3) ld loadConversation_turns [OF ld]
    by (simp add: sendMessageToBot_def k)
qed

lemma mentionBotInGroup_trims:
  assumes "0 < maxHistory (b_config b)" "content \<noteq> []" "findGroupById s gid = Some grp"
    "u \<in> set (g_members grp)" "findEnabledBot s = Some b"
    "e_match e (b_name b) content = Some captured"
    and ld: "loadConversation e u (b_id b) (Some gid) s = (conv, s0)"
    and ch: "chat (e_llm e) (relayRequest e b conv (trim captured)) = (chunks, Inr full)"
  shows "\<exists>mid s'. mentionBotInGroup e u (ValidId gid) content s = (Inr mid, s') \<and>
     storedTurns s' u (b_id b) (Some gid) =
       drop (length (storedTurns s u (b_id b) (Some gid)) + 2
               - nat (2 * maxHistory (b_config b)))
         (storedTurns s u (b_id b) (Some gid)
            @ [userTurn e (trim captured), assistantTurn e full]) \<and>
     int (length (storedTurns s' u (b_id b) (Some gid))) \<le> 2 * maxHistory (b_config b)"
proof -
  have k: "cv_user conv = u" "cv_bot conv = b_id b" "cv_group conv = Some gid"
    using loadConversation_key [OF ld] by simp_all
  have fc: "findConversation s0 (cv_user conv) (cv_bot conv) (cv_group conv) = Some conv"
    using loadConversation_found [OF ld] by (simp add: k)
  from completed_exchange_trims [OF assms(1) ch fc, where room = gid and grp = "Some gid"
      and tag = "''mentionBotInGroup''"]
  show ?thesis using assms(2-6) ld loadConversation_turns [OF ld]
    by (simp add: mentionBotInGroup_def k Let_def)
qed

text \<open>
  C3 fails on the code when \<open>maxHistory\<close> is 0, a value \<open>configureBot\<close> stores when it
  updates an existing bot (only its create branch replaces 0 by 10). Then
  \<open>maxMessages\<close> is 0 and \<open>slice(-0)\<close> is the whole array: nothing is dropped. With
  \<open>maxHistory = 0\<close> stored, one completed exchange leaves 2 turns and the next one 4,
  against a bound of \<open>2 * 0\<close>.
\<close>

theorem trim_skipped_when_maxHistory_zero:
  "map (maxHistory \<circ> b_config) (bots zero_store) = [0]
   \<and> (\<exists>mid. fst (sendMessageToBot ok_env 7 ''hi'' zero_store) = Inr mid)
   \<and> map (length \<circ> cv_messages) (conversations after_one) = [2]
   \<and> (\<exists>mid. fst (sendMessageToBot ok_env 7 ''more'' after_one) = Inr mid)
   \<and> map (length \<circ> cv_messages) (conversations after_two) = [4]"
  by (simp add: zero_store_def after_one_def after_two_def configureBot_def findBot_def
      saveBot_def mask_view_def merge_config_def str_or_def sendMessageToBot_def
      findEnabledBot_def loadConversation_def findConversation_def createConversation_def
      exchange_def pushUserTurn_def relayRequest_def chat_def trimHistory_def slice_def
      saveConversation_def createMessage_def emit_def Let_def
      empty_store_def bot1_def bot_store_def admin_sock_def ok_env_def env_with_def
      zero_history_def)

section \<open>Tokens\<close>

lemma find_Some_holds: "find P xs = Some x \<Longrightarrow> P x"
  by (induction xs) (auto split: if_splits)

lemma handleNewUser_no_address:
  "\<not> (a_now e - u_createTime usr < OneDay \<and> a_redis_fails e SetNewUser) \<Longrightarrow>
   \<exists>s1. handleNewUser e usr [] s = (Inr (), s1)"
  by (auto simp: handleNewUser_def Let_def)

lemma completeLogin_binds:
  "\<exists>r sock' s'. completeLogin e usr ce issue sock s = (Inr r, sock', s') \<and>
     sk_user sock' = Some (u_id usr) \<and> lr_id r = u_id usr"
  by (simp add: completeLogin_def bindSocket_def Let_def)

text \<open>
  C6 as the specification states it: a token that has not expired, presented with the
  environment it was issued for, re-binds the connection to the token's identity. The
  token is stateless, and \<open>loginByToken\<close> looks the identity up: alice's token, presented
  after alice was deleted, passes the three checks and fails with the user-not-found
  error, the connection staying unbound. And the empty token, which is no token at all,
  fails with the token-empty assertion, not with the invalid-token answer.
\<close>

theorem token_login_counterexample:
  "fst (loginByToken auth0 (generateToken auth0 42 ''envA'') envA fresh_sock purged_store)
     = Inl UserNotExist
   \<and> sk_user (fst (snd (loginByToken auth0 (generateToken auth0 42 ''envA'') envA fresh_sock
                         purged_store))) = None
   \<and> fst (loginByToken auth0 (Opaque []) envA fresh_sock auth_store) = Inl TokenEmpty"
  by (simp add: loginByToken_def generateToken_def jwt_decode_def findUserById_def
      purged_store_def deleteUser_def findUserByName_def cleanupSteps_def deleteUserDoc_def
      redisCleanup_def forceDisconnect_def deleteMessages_def leaveGroups_def storeCall_def
      leaveGroup_def logError_def Let_def
      auth0_def config0_def envA_def fresh_sock_def auth_store_def empty_store_def alice_def
      lobby_def quiet_del_def)

text \<open>
  C6, amended. For a token \<open>generateToken\<close> issued for an identity and an environment,
  and a server with the same secret: a non-empty string that is no token, or a token
  signed with another secret, gets the invalid-token answer; once the expiry time has
  been reached the token fails with the token-expired error whatever the environment
  presented; before that, a different environment fails with the environment-mismatch
  error; before that and with the same environment the three checks pass, and then the
  login fails with the user-not-found error when the identity no longer exists, and
  otherwise (unless the identity is less than a day old and the Redis write of
  \<open>handleNewUser\<close> throws) succeeds and binds the connection to the token's identity.
\<close>

theorem loginByToken_checks:
  assumes secret: "jwtSecret (a_config e) = jwtSecret (a_config e0)"
  shows
   "((\<exists>x. t = Opaque x \<and> x \<noteq> []) \<or> (\<exists>p k. t = Jwt p k \<and> k \<noteq> jwtSecret (a_config e))
       \<longrightarrow> loginByToken e t ce sock s = (Inl IllegalToken, sock, s))
    \<and> (a_now e0 + tokenExpiresTime (a_config e0) \<le> a_now e
       \<longrightarrow> loginByToken e (generateToken e0 uid envE) ce sock s = (Inl TokenExpired, sock, s))
    \<and> (a_now e < a_now e0 + tokenExpiresTime (a_config e0) \<and> ce_environment ce \<noteq> envE
       \<longrightarrow> loginByToken e (generateToken e0 uid envE) ce sock s = (Inl IllegalLogin, sock, s))
    \<and> (a_now e < a_now e0 + tokenExpiresTime (a_config e0) \<and> ce_environment ce = envE \<and>
        findUserById s uid = None
       \<longrightarrow> loginByToken e (generateToken e0 uid envE) ce sock s = (Inl UserNotExist, sock, s))
    \<and> (a_now e < a_now e0 + tokenExpiresTime (a_config e0) \<and> ce_environment ce = envE \<and>
        findUserById s uid = Some usr \<and>
        \<not> (a_now e - u_createTime usr < OneDay \<and> a_redis_fails e SetNewUser)
       \<longrightarrow> (\<exists>r sock' s'. loginByToken e (generateToken e0 uid envE) ce sock s = (Inr r, sock', s')
              \<and> sk_user sock' = Some uid \<and> lr_id r = uid))"
proof (intro conjI impI)
  assume "(\<exists>x. t = Opaque x \<and> x \<noteq> []) \<or> (\<exists>p k. t = Jwt p k \<and> k \<noteq> jwtSecret (a_config e))"
  then show "loginByToken e t ce sock s = (Inl IllegalToken, sock, s)"
    by (auto simp: loginByToken_def jwt_decode_def)
next
  assume "a_now e0 + tokenExpiresTime (a_config e0) \<le> a_now e"
  then show "loginByToken e (generateToken e0 uid envE) ce sock s = (Inl TokenExpired, sock, s)"
    by (simp add: loginByToken_def jwt_decode_def generateToken_def secret)
next
  assume "a_now e < a_now e0 + tokenExpiresTime (a_config e0) \<and> ce_environment ce \<noteq> envE"
  then show "loginByToken e (generateToken e0 uid envE) ce sock s = (Inl IllegalLogin, sock, s)"
    by (simp add: loginByToken_def jwt_decode_def generateToken_def secret)
next
  assume "a_now e < a_now e0 + tokenExpiresTime (a_config e0) \<and> ce_environment ce = envE \<and>
        findUserById s uid = None"
  then show "loginByToken e (generateToken e0 uid envE) ce sock s = (Inl UserNotExist, sock, s)"
    by (simp add: loginByToken_def jwt_decode_def generateToken_def secret)
next
  assume a: "a_now e < a_now e0 + tokenExpiresTime (a_config e0) \<and> ce_environment ce = envE \<and>
        findUserById s uid = Some usr \<and>
        \<not> (a_now e - u_createTime usr < OneDay \<and> a_redis_fails e SetNewUser)"
  then have uid: "u_id usr = uid"
    using find_Some_holds [of "\<lambda>u. u_id u = uid" "users s" usr] by (simp add: findUserById_def)
  from a obtain s1 where h: "handleNewUser e usr [] s = (Inr (), s1)"
    using handleNewUser_no_address [of e usr s] by blast
  from completeLogin_binds [of e usr ce False sock s1] obtain r sock' s'
    where c: "completeLogin e usr ce False sock s1 = (Inr r, sock', s')"
      "sk_user sock' = Some (u_id usr)" "lr_id r = u_id usr"
    by blast
  from a h c have "loginByToken e (generateToken e0 uid envE) ce sock s = (Inr r, sock', s')"
    by (simp add: loginByToken_def jwt_decode_def generateToken_def secret)
  with c uid show "\<exists>r sock' s'. loginByToken e (generateToken e0 uid envE) ce sock s
      = (Inr r, sock', s') \<and> sk_user sock' = Some uid \<and> lr_id r = uid"
    by blast
qed

theorem loginByToken_checks_witness:
  "loginByToken auth0 (Opaque ''garbage'') envA fresh_sock auth_store
     = (Inl IllegalToken, fresh_sock, auth_store)
   \<and> loginByToken (auth0\<lparr>a_now := 900000000\<rparr>) (generateToken auth0 42 ''envA'') envB fresh_sock
       auth_store = (Inl TokenExpired, fresh_sock, auth_store)
   \<and> loginByToken auth0 (generateToken auth0 42 ''envA'') envB fresh_sock auth_store
     = (Inl IllegalLogin, fresh_sock, auth_store)
   \<and> (\<exists>r sock' s'. loginByToken auth0 (generateToken auth0 42 ''envA'') envA fresh_sock auth_store
         = (Inr r, sock', s') \<and> sk_user sock' = Some 42 \<and> lr_id r = 42)"
proof -
  have u: "findUserById auth_store 42 = Some alice"
    by (simp add: findUserById_def auth_store_def alice_def)
  have old: "\<not> (a_now auth0 - u_createTime alice < OneDay \<and> a_redis_fails auth0 SetNewUser)"
    by (simp add: auth0_def)
  have t: "a_now auth0 < a_now auth0 + tokenExpiresTime (a_config auth0)"
    "a_now auth0 + tokenExpiresTime (a_config auth0) \<le> a_now (auth0\<lparr>a_now := 900000000\<rparr>)"
    by (simp_all add: auth0_def config0_def)
  have env: "ce_environment envB \<noteq> ''envA''" "ce_environment envA = ''envA''"
    by (simp_all add: envA_def envB_def)
  note th = loginByToken_checks [of auth0 auth0 "Opaque ''garbage''" envA fresh_sock auth_store]
  note th' = loginByToken_checks [of "auth0\<lparr>a_now := 900000000\<rparr>" auth0 _ envB fresh_sock
      auth_store 42 "''envA''"]
  have 1: "loginByToken auth0 (Opaque ''garbage'') envA fresh_sock auth_store
     = (Inl IllegalToken, fresh_sock, auth_store)"
    using th by simp
  have 2: "loginByToken (auth0\<lparr>a_now := 900000000\<rparr>) (generateToken auth0 42 ''envA'') envB
       fresh_sock auth_store = (Inl TokenExpired, fresh_sock, auth_store)"
    using th' t(2) by simp
  have 3: "loginByToken auth0 (generateToken auth0 42 ''envA'') envB fresh_sock auth_store
     = (Inl IllegalLogin, fresh_sock, auth_store)"
    using loginByToken_checks [of auth0 auth0 _ envB fresh_sock auth_store 42 "''envA''"]
      t(1) env(1) by simp
  have 4: "\<exists>r sock' s'. loginByToken auth0 (generateToken auth0 42 ''envA'') envA fresh_sock
         auth_store = (Inr r, sock', s') \<and> sk_user sock' = Some 42 \<and> lr_id r = 42"
    using loginByToken_checks [of auth0 auth0 _ envA fresh_sock auth_store 42 "''envA''" alice]
      t(1) env(2) u old by simp
  from 1 2 3 4 show ?thesis by blast
qed

section \<open>The registration counter\<close>

declare string_of_nat.simps [simp del]

lemma digit_char: "d < 10 \<Longrightarrow> is_digit (char_of (48 + d)) \<and> of_char (char_of (48 + d)) - (48::nat) = d"
  by (simp add: is_digit_def)

lemma string_of_nat_digits: "list_all is_digit (string_of_nat n) \<and> string_of_nat n \<noteq> []"
proof (induction n rule: string_of_nat.induct)
  case (1 n)
  show ?case
  proof (cases "n < 10")
    case True
    then show ?thesis by (subst (1 2) string_of_nat.simps) (simp add: digit_char)
  next
    case False
    with 1 have "list_all is_digit (string_of_nat (n div 10))" by simp
    moreover have "is_digit (char_of (48 + n mod 10))" by (simp add: digit_char)
    ultimately show ?thesis using False by (subst (1 2) string_of_nat.simps) simp
  qed
qed

lemma digits_value_snoc: "digits_value (ds @ [c]) = 10 * digits_value ds + (of_char c - 48)"
  by (simp add: digits_value_def)

lemma digits_value_string_of_nat: "digits_value (string_of_nat n) = n"
proof (induction n rule: string_of_nat.induct)
  case (1 n)
  show ?case
  proof (cases "n < 10")
    case True
    then show ?thesis
      by (subst string_of_nat.simps) (simp add: digits_value_def digit_char)
  next
    case False
    with 1 have "digits_value (string_of_nat (n div 10)) = n div 10" by simp
    then show ?thesis using False
      by (subst string_of_nat.simps) (simp add: digits_value_snoc digit_char)
  qed
qed

lemma digit_not_space_or_sign:
  "is_digit c \<Longrightarrow> \<not> js_space c \<and> c \<noteq> CHR ''-'' \<and> c \<noteq> CHR ''+''"
  by (auto simp: is_digit_def js_space_def)

lemma takeWhile_all: "list_all P xs \<Longrightarrow> takeWhile P xs = xs"
  by (induction xs) auto

lemma parseInt_digits:
  assumes "ds \<noteq> []" "list_all is_digit ds"
  shows "parseInt ds = Some (int (digits_value ds))"
proof -
  from assms obtain c cs where ds: "ds = c # cs" and c: "is_digit c" by (cases ds) auto
  from assms have tw: "takeWhile is_digit ds = ds" by (simp add: takeWhile_all)
  show ?thesis
    using digit_not_space_or_sign [OF c] tw assms(1)
    by (simp add: parseInt_def ds Let_def)
qed

lemma parseInt_negative:
  assumes "ds \<noteq> []" "list_all is_digit ds"
  shows "parseInt (CHR ''-'' # ds) = Some (- int (digits_value ds))"
proof -
  from assms have tw: "takeWhile is_digit ds = ds" by (simp add: takeWhile_all)
  show ?thesis using assms(1) by (simp add: parseInt_def Let_def js_space_def tw)
qed

text \<open>A number written by \<open>toString\<close> is read back by \<open>parseInt\<close>.\<close>

lemma parseInt_numToString: "parseInt (numToString x) = x"
proof (cases x)
  case None
  then show ?thesis by (simp add: numToString_def parseInt_def js_space_def is_digit_def)
next
  case (Some i)
  then show ?thesis
    using string_of_nat_digits [of "nat i"] string_of_nat_digits [of "nat (- i)"]
    by (simp add: numToString_def parseInt_digits parseInt_negative digits_value_string_of_nat)
qed

lemma numToString_not_empty: "numToString x \<noteq> []"
  using string_of_nat_digits by (auto simp: numToString_def split: option.splits)

lemma handleNewUser_count:
  "fst (handleNewUser e usr ip s) = Inr x \<Longrightarrow> ip \<noteq> [] \<Longrightarrow>
   a_now e - u_createTime usr < OneDay \<Longrightarrow>
   redis (snd (handleNewUser e usr ip s)) (NewRegisteredUserIpKey ip) =
     Some (numToString (map_option (\<lambda>n. n + 1) (addressCount s ip)))"
  by (auto simp: handleNewUser_def addressCount_def Let_def split: if_splits)

lemma handleNewUser_other_address:
  "ip' \<noteq> ip \<Longrightarrow>
   redis (snd (handleNewUser e usr ip s)) (NewRegisteredUserIpKey ip')
     = redis s (NewRegisteredUserIpKey ip')"
  by (simp add: handleNewUser_def Let_def)

lemma handleNewUser_error: "fst (handleNewUser e usr ip s) = Inl err \<Longrightarrow> err = RedisError"
  by (auto simp: handleNewUser_def Let_def split: if_splits)

lemma createUser_error: "fst (createUser e n sa pw ip pr s) = Inl err \<Longrightarrow> err = UsernameInvalid"
  by (auto simp: createUser_def Let_def split: if_splits)

lemma createUser_result:
  "fst (createUser e n sa pw ip pr s) = Inr u \<Longrightarrow>
   u_createTime u = a_now e \<and> u_id u = next_id s \<and> u_username u = n \<and> u_authProvider u = pr"
  by (auto simp: createUser_def Let_def split: if_splits)

lemma addressCount_written:
  "redis s (NewRegisteredUserIpKey ip) = Some (numToString x) \<Longrightarrow> addressCount s ip = x"
  by (simp add: addressCount_def str_or_def numToString_not_empty parseInt_numToString)

lemma addressCount_cong: "redis s' = redis s \<Longrightarrow> addressCount s' ip = addressCount s ip"
  by (simp add: addressCount_def)

text \<open>The steps of the routes that leave Redis alone.\<close>

lemma redis_frame:
  "redis (logError tag err s) = redis s"
  "redis (snd (readRegisteredCount e ip s)) = redis s"
  "redis (snd (createUser e n sa pw ip pr s)) = redis s"
  "redis (snd (joinDefaultGroup g uid s)) = redis s"
  "redis (snd (bindSocket sock uid ce s)) = redis s"
  "redis (saveUser u s) = redis s"
  by (simp_all add: logError_def readRegisteredCount_def createUser_def joinDefaultGroup_def
      saveGroup_def bindSocket_def saveUser_def Let_def)

lemma OneDay_pos: "0 < OneDay"
  by (simp add: OneDay_def)

lemma finishRegister_redis:
  "redis (snd (snd (finishRegister e u dg ce sock s))) = redis s"
  by (simp add: finishRegister_def Let_def split_beta redis_frame)

lemma finishRegister_succeeds: "fst (finishRegister e u dg ce sock s) \<noteq> Inl err"
  by (simp add: finishRegister_def Let_def split_beta)

lemma enrol_other_address:
  "ip' \<noteq> sk_ip sock \<Longrightarrow>
   redis (snd (snd (enrol e username password dg ce sock s))) (NewRegisteredUserIpKey ip')
     = redis s (NewRegisteredUserIpKey ip')"
  by (simp add: enrol_def split_beta finishRegister_redis redis_frame
      handleNewUser_other_address split: sum.split)

lemma enrol_error:
  "fst (enrol e username password dg ce sock s) = Inl err \<Longrightarrow>
   err = UsernameInvalid \<or> err = RedisError"
  by (auto simp: enrol_def split_beta finishRegister_succeeds split: sum.splits
      dest: createUser_error handleNewUser_error)

lemma enrol_count:
  assumes "fst (enrol e username password dg ce sock s) = Inr r" and "sk_ip sock \<noteq> []"
  shows "redis (snd (snd (enrol e username password dg ce sock s)))
           (NewRegisteredUserIpKey (sk_ip sock))
         = Some (numToString (map_option (\<lambda>n. n + 1) (addressCount s (sk_ip sock))))"
proof -
  let ?c = "createUser e username (a_salt e) (a_hash e password (a_salt e)) (sk_ip sock) [] s"
  from assms(1) obtain u where u: "fst ?c = Inr u"
    by (cases "fst ?c") (auto simp: enrol_def split_beta)
  let ?h = "handleNewUser e u (sk_ip sock) (snd ?c)"
  from assms(1) u obtain x where h: "fst ?h = Inr x"
    by (cases "fst ?h") (auto simp: enrol_def split_beta)
  have "a_now e - u_createTime u < OneDay"
    using createUser_result [OF u] OneDay_pos by simp
  from handleNewUser_count [OF h assms(2) this]
  have "redis (snd ?h) (NewRegisteredUserIpKey (sk_ip sock))
         = Some (numToString (map_option (\<lambda>n. n + 1) (addressCount s (sk_ip sock))))"
    by (simp add: addressCount_cong [of "snd ?c" s] redis_frame)
  then show ?thesis using u h by (simp add: enrol_def split_beta finishRegister_redis)
qed

lemma register_other_address:
  "ip' \<noteq> sk_ip sock \<Longrightarrow>
   redis (snd (snd (register e username password ce sock s))) (NewRegisteredUserIpKey ip')
     = redis s (NewRegisteredUserIpKey ip')"
  by (simp add: register_def Let_def split_beta bannedCheck_def redis_frame enrol_other_address
      split: option.split)

lemma register_count:
  assumes "fst (register e username password ce sock s) = Inr r" and "sk_ip sock \<noteq> []"
  shows "addressCount (snd (snd (register e username password ce sock s))) (sk_ip sock)
         = map_option (\<lambda>n. n + 1) (addressCount s (sk_ip sock))"
proof -
  let ?s2 = "snd (readRegisteredCount e (sk_ip sock) (bannedCheck e username s))"
  have r2: "redis ?s2 = redis s" by (simp add: redis_frame bannedCheck_def)
  from assms(1) obtain dg where dg: "findDefaultGroup ?s2 = Some dg"
    and reg: "register e username password ce sock s = enrol e username password dg ce sock ?s2"
    by (auto simp: register_def Let_def split_beta split: if_splits option.splits)
  from assms(1) reg have "fst (enrol e username password dg ce sock ?s2) = Inr r" by simp
  from enrol_count [OF this assms(2)] show ?thesis
    by (simp add: reg addressCount_written addressCount_cong [OF r2])
qed

lemma register_limit_iff:
  assumes "\<not> a_redis_fails e GetDisableRegister"
    and "\<not> (case redis s DisableRegisterKey of
              Some v \<Rightarrow> v = ''true'' | None \<Rightarrow> disableRegister (a_config e))"
    and "username \<noteq> []" and "password \<noteq> []" and "findUserByName s username = None"
  shows "fst (register e username password ce sock s) = Inl RegisterLimit \<longleftrightarrow>
     \<not> (a_redis_fails e GetRegisteredCount \<or>
        redis s (NewRegisteredUserIpKey (sk_ip sock)) = None \<or>
        (\<exists>n. addressCount s (sk_ip sock) = Some n \<and> n < 3))"
proof -
  let ?s1 = "bannedCheck e username s"
  let ?rc = "readRegisteredCount e (sk_ip sock) ?s1"
  have u1: "findUserByName ?s1 username = None"
    using assms(5) by (simp add: bannedCheck_def findUserByName_def logError_def)
  have allow: "countAllows (fst ?rc) \<longleftrightarrow>
      (a_redis_fails e GetRegisteredCount \<or>
        redis s (NewRegisteredUserIpKey (sk_ip sock)) = None \<or>
        (\<exists>n. addressCount s (sk_ip sock) = Some n \<and> n < 3))"
    by (auto simp: readRegisteredCount_def countAllows_def addressCount_def bannedCheck_def
        logError_def split: option.splits)
  show ?thesis
  proof (cases "countAllows (fst ?rc)")
    case False
    then have "fst (register e username password ce sock s) = Inl RegisterLimit"
      using assms u1 by (simp add: register_def Let_def split_beta)
    with False allow show ?thesis by simp
  next
    case True
    have "fst (register e username password ce sock s) \<noteq> Inl RegisterLimit"
    proof (cases "findDefaultGroup (snd ?rc)")
      case None
      then show ?thesis using assms u1 True by (simp add: register_def Let_def split_beta)
    next
      case (Some dg)
      then have "register e username password ce sock s
          = enrol e username password dg ce sock (snd ?rc)"
        using assms u1 True by (simp add: register_def Let_def split_beta)
      then show ?thesis using enrol_error [of e username password dg ce sock "snd ?rc"] by auto
    qed
    with True allow show ?thesis by simp
  qed
qed

lemma register_counter_present:
  assumes "fst (register e username password ce sock s) = Inr r" and "sk_ip sock \<noteq> []"
  shows "redis (snd (snd (register e username password ce sock s)))
           (NewRegisteredUserIpKey (sk_ip sock)) \<noteq> None"
proof -
  let ?s2 = "snd (readRegisteredCount e (sk_ip sock) (bannedCheck e username s))"
  from assms(1) obtain dg where
    reg: "register e username password ce sock s = enrol e username password dg ce sock ?s2"
    by (auto simp: register_def Let_def split_beta split: if_splits option.splits)
  from assms(1) reg have "fst (enrol e username password dg ce sock ?s2) = Inr r" by simp
  from enrol_count [OF this assms(2)] show ?thesis by (simp add: reg)
qed

text \<open>
  The burst of the specification: after three successful registrations from one
  non-empty address whose counter was absent or 0, a fourth attempt that reaches the
  check with Redis readable is rejected.
\<close>

lemma fourth_registration_rejected:
  assumes ip: "sk_ip sock \<noteq> []" and c0: "addressCount s0 (sk_ip sock) = Some 0"
    and r1: "register e n1 p1 ce1 sock s0 = (Inr x1, k1, s1)"
    and r2: "register e n2 p2 ce2 sock s1 = (Inr x2, k2, s2)"
    and r3: "register e n3 p3 ce3 sock s2 = (Inr x3, k3, s3)"
    and reach: "\<not> a_redis_fails e GetDisableRegister"
      "\<not> (case redis s3 DisableRegisterKey of
              Some v \<Rightarrow> v = ''true'' | None \<Rightarrow> disableRegister (a_config e))"
      "n4 \<noteq> []" "p4 \<noteq> []" "findUserByName s3 n4 = None"
    and readable: "\<not> a_redis_fails e GetRegisteredCount"
  shows "fst (register e n4 p4 ce4 sock s3) = Inl RegisterLimit"
proof -
  have "addressCount s1 (sk_ip sock) = Some 1"
    using register_count [of e n1 p1 ce1 sock s0 x1] r1 ip c0 by simp
  then have "addressCount s2 (sk_ip sock) = Some 2"
    using register_count [of e n2 p2 ce2 sock s1 x2] r2 ip by simp
  then have c3: "addressCount s3 (sk_ip sock) = Some 3"
    using register_count [of e n3 p3 ce3 sock s2 x3] r3 ip by simp
  have "redis s3 (NewRegisteredUserIpKey (sk_ip sock)) \<noteq> None"
    using register_counter_present [of e n3 p3 ce3 sock s2 x3] r3 ip by simp
  with c3 readable show ?thesis
    using register_limit_iff [OF reach, of ce4 sock] by simp
qed

text \<open>
  C7 as the specification states it: each successful registration increments the counter
  of its address, so that a fourth registration from one address is rejected.
  \<open>handleNewUser\<close> skips the counter when the address is the empty string
  (\<open>if (ip)\<close>): a registration from a connection whose address is empty succeeds and
  leaves the counter of that address absent.
\<close>

theorem register_counts_counterexample:
  "(\<exists>r. fst (register auth0 ''bob'' ''pw'' envA noaddr_sock auth_store) = Inr r)
   \<and> redis (snd (snd (register auth0 ''bob'' ''pw'' envA noaddr_sock auth_store)))
        (NewRegisteredUserIpKey (sk_ip noaddr_sock)) = None"
  by (simp add: register_def bannedCheck_def readRegisteredCount_def countAllows_def
      findUserByName_def findDefaultGroup_def enrol_def createUser_def handleNewUser_def
      finishRegister_def joinDefaultGroup_def saveGroup_def bindSocket_def generateToken_def
      Let_def OneDay_def
      auth0_def config0_def envA_def noaddr_sock_def auth_store_def empty_store_def alice_def
      lobby_def)

text \<open>
  C7, amended. For a registration attempt that reaches the rate-limit check (registration
  not disabled, user name and password given, user name free): it is rejected by the
  check exactly when the counter of the address was read, is present, and does not hold
  a count below 3; so the check admits the attempt if and only if the read failed, the
  counter is absent, or its count is below 3. A successful registration from a
  non-empty address adds one to the count of that address (from a connection whose
  address is the empty string nothing is counted). The counters of all other addresses
  are left as they were.
\<close>

theorem register_rate_limit:
  assumes "\<not> a_redis_fails e GetDisableRegister"
    and "\<not> (case redis s DisableRegisterKey of
              Some v \<Rightarrow> v = ''true'' | None \<Rightarrow> disableRegister (a_config e))"
    and "username \<noteq> []" and "password \<noteq> []" and "findUserByName s username = None"
  shows "(fst (register e username password ce sock s) = Inl RegisterLimit \<longleftrightarrow>
           \<not> (a_redis_fails e GetRegisteredCount \<or>
              redis s (NewRegisteredUserIpKey (sk_ip sock)) = None \<or>
              (\<exists>n. addressCount s (sk_ip sock) = Some n \<and> n < 3)))
    \<and> ((\<exists>r. fst (register e username password ce sock s) = Inr r) \<and> sk_ip sock \<noteq> []
        \<longrightarrow> addressCount (snd (snd (register e username password ce sock s))) (sk_ip sock)
            = map_option (\<lambda>n. n + 1) (addressCount s (sk_ip sock)))
    \<and> (ip' \<noteq> sk_ip sock
        \<longrightarrow> redis (snd (snd (register e username password ce sock s)))
              (NewRegisteredUserIpKey ip')
            = redis s (NewRegisteredUserIpKey ip'))"
  using register_limit_iff [OF assms] register_count [of e username password ce sock s]
    register_other_address [of ip' sock e username password ce s]
  by blast

lemma addressCount_counted:
  "addressCount (counted_store ''2'') ''1.2.3.4'' = Some 2"
  "addressCount (counted_store ''3'') ''1.2.3.4'' = Some 3"
  by (simp_all add: addressCount_def counted_store_def str_or_def parseInt_def js_space_def
      is_digit_def digits_value_def Let_def)

lemma register_counted_succeeds:
  "\<exists>r. fst (register auth0 ''bob'' ''pw'' envA fresh_sock (counted_store ''2'')) = Inr r"
  by (simp add: register_def bannedCheck_def readRegisteredCount_def countAllows_def
      findUserByName_def findDefaultGroup_def enrol_def createUser_def handleNewUser_def
      finishRegister_def joinDefaultGroup_def saveGroup_def bindSocket_def generateToken_def
      Let_def OneDay_def str_or_def parseInt_def js_space_def is_digit_def digits_value_def
      counted_store_def
      auth0_def config0_def envA_def fresh_sock_def auth_store_def empty_store_def alice_def
      lobby_def)

theorem register_rate_limit_witness:
  "fst (register auth0 ''bob'' ''pw'' envA fresh_sock (counted_store ''3'')) = Inl RegisterLimit
   \<and> addressCount (snd (snd (register auth0 ''bob'' ''pw'' envA fresh_sock (counted_store ''2''))))
        ''1.2.3.4'' = Some 3
   \<and> redis (snd (snd (register auth0 ''bob'' ''pw'' envA fresh_sock (counted_store ''2''))))
        (NewRegisteredUserIpKey ''5.6.7.8'') = None"
proof -
  have p1: "\<not> a_redis_fails auth0 GetDisableRegister"
    and p3: "''bob'' \<noteq> []" and p4: "''pw'' \<noteq> []"
    by (simp_all add: auth0_def)
  have p2: "\<not> (case redis (counted_store v) DisableRegisterKey of
              Some v \<Rightarrow> v = ''true'' | None \<Rightarrow> disableRegister (a_config auth0))"
    and p5: "findUserByName (counted_store v) ''bob'' = None" for v
    by (simp_all add: auth0_def config0_def counted_store_def auth_store_def empty_store_def
        findUserByName_def alice_def)
  have ip: "sk_ip fresh_sock = ''1.2.3.4''" "''5.6.7.8'' \<noteq> sk_ip fresh_sock"
    "sk_ip fresh_sock \<noteq> []"
    by (simp_all add: fresh_sock_def)
  have rd: "redis (counted_store ''3'') (NewRegisteredUserIpKey ''1.2.3.4'') \<noteq> None"
    "\<not> a_redis_fails auth0 GetRegisteredCount"
    "redis (counted_store ''2'') (NewRegisteredUserIpKey ''5.6.7.8'') = None"
    by (simp_all add: counted_store_def auth0_def auth_store_def empty_store_def)
  from register_rate_limit [OF p1 p2 [of "''3''"] p3 p4 p5 [of "''3''"], of envA fresh_sock
      "''5.6.7.8''"]
  have 1: "fst (register auth0 ''bob'' ''pw'' envA fresh_sock (counted_store ''3''))
      = Inl RegisterLimit"
    using rd by (simp add: ip addressCount_counted)
  from register_rate_limit [OF p1 p2 [of "''2''"] p3 p4 p5 [of "''2''"], of envA fresh_sock
      "''5.6.7.8''"]
    register_counted_succeeds
  have 2: "addressCount (snd (snd (register auth0 ''bob'' ''pw'' envA fresh_sock
        (counted_store ''2'')))) ''1.2.3.4'' = Some 3"
    and 3: "redis (snd (snd (register auth0 ''bob'' ''pw'' envA fresh_sock
        (counted_store ''2'')))) (NewRegisteredUserIpKey ''5.6.7.8'') = None"
    using rd ip(2,3) by (simp_all add: ip(1) addressCount_counted)
  from 1 2 3 show ?thesis by blast
qed

section \<open>Joining the default group\<close>

lemma joined_eq:
  "joined g uid =
     g\<lparr>g_creator := (case g_creator g of None \<Rightarrow> Some uid | Some c \<Rightarrow> Some c),
       g_members := g_members g @ [uid]\<rparr>"
  by (simp add: joined_def joinDefaultGroup_def Let_def)

lemma find_group_replace:
  "find P xs = Some g0 \<Longrightarrow> P g \<Longrightarrow> g_id g = g_id g0 \<Longrightarrow>
   find P (map (\<lambda>d. if g_id d = g_id g then g else d) xs) = Some g"
  by (induction xs) (auto split: if_splits)

lemma joinDefaultGroup_eq:
  "joinDefaultGroup g uid s = (joined g uid, saveGroup (joined g uid) s)"
  by (simp add: joined_def joinDefaultGroup_def Let_def)

lemma joined_fields: "g_id (joined g uid) = g_id g" "g_isDefault (joined g uid) = g_isDefault g"
  by (simp_all add: joined_eq)

lemma joinDefaultGroup_stored:
  assumes "findDefaultGroup s = Some dg" and "groups s' = groups s"
  shows "findDefaultGroup (snd (joinDefaultGroup dg uid s')) = Some (joined dg uid)"
proof -
  have "g_isDefault dg" using assms(1) find_Some_holds [of g_isDefault "groups s" dg]
    by (simp add: findDefaultGroup_def)
  then have "find g_isDefault (map (\<lambda>d. if g_id d = g_id (joined dg uid) then joined dg uid else d)
      (groups s)) = Some (joined dg uid)"
    using assms(1)
    by (intro find_group_replace [where ?g0.0 = dg])
      (simp_all add: findDefaultGroup_def joined_fields)
  then show ?thesis
    by (simp add: findDefaultGroup_def joinDefaultGroup_eq saveGroup_def assms(2))
qed

text \<open>The steps of the routes that leave the groups alone.\<close>

lemma groups_frame:
  "groups (logError tag err s) = groups s"
  "groups (bannedCheck e n s) = groups s"
  "groups (snd (readRegisteredCount e ip s)) = groups s"
  "groups (snd (createUser e n sa pw ip pr s)) = groups s"
  "groups (snd (handleNewUser e u ip s)) = groups s"
  "groups (snd (bindSocket sock uid ce s)) = groups s"
  "groups (saveUser u s) = groups s"
  by (simp_all add: logError_def bannedCheck_def readRegisteredCount_def createUser_def
      handleNewUser_def bindSocket_def saveUser_def Let_def)

lemma findDefaultGroup_cong: "groups s' = groups s \<Longrightarrow> findDefaultGroup s' = findDefaultGroup s"
  by (simp add: findDefaultGroup_def)

lemma finishRegister_joins:
  assumes "findDefaultGroup s0 = Some dg" and "groups s = groups s0"
  shows "findDefaultGroup (snd (snd (finishRegister e u dg ce sock s))) = Some (joined dg (u_id u))"
    and "\<exists>r. fst (finishRegister e u dg ce sock s) = Inr r \<and> lr_id r = u_id u"
  using joinDefaultGroup_stored [OF assms, of "u_id u"]
  by (simp_all add: finishRegister_def Let_def split_beta
      findDefaultGroup_cong [OF groups_frame(6)])

lemma enrol_joins:
  assumes ok: "fst (enrol e username password dg ce sock s) = Inr r"
    and dg: "findDefaultGroup s = Some dg"
  shows "findDefaultGroup (snd (snd (enrol e username password dg ce sock s)))
           = Some (joined dg (lr_id r))"
proof -
  let ?c = "createUser e username (a_salt e) (a_hash e password (a_salt e)) (sk_ip sock) [] s"
  from ok obtain u where u: "fst ?c = Inr u"
    by (cases "fst ?c") (auto simp: enrol_def split_beta)
  let ?h = "handleNewUser e u (sk_ip sock) (snd ?c)"
  from ok u obtain x where h: "fst ?h = Inr x"
    by (cases "fst ?h") (auto simp: enrol_def split_beta)
  have en: "enrol e username password dg ce sock s = finishRegister e u dg ce sock (snd ?h)"
    using u h by (simp add: enrol_def split_beta)
  have g: "groups (snd ?h) = groups s" by (simp add: groups_frame)
  from finishRegister_joins [OF dg g, of e u ce sock] ok
  show ?thesis by (auto simp: en)
qed

text \<open>
  A successful registration joins the new identity to the default group: the creator is
  set to it when there was none and kept otherwise, and it becomes the last member.
\<close>

lemma register_joins_default_group:
  assumes "fst (register e username password ce sock s) = Inr r"
  shows "\<exists>dg. findDefaultGroup s = Some dg \<and>
           findDefaultGroup (snd (snd (register e username password ce sock s)))
             = Some (joined dg (lr_id r))"
proof -
  let ?s2 = "snd (readRegisteredCount e (sk_ip sock) (bannedCheck e username s))"
  have g2: "groups ?s2 = groups s" by (simp add: groups_frame)
  from assms obtain dg where dg: "findDefaultGroup ?s2 = Some dg"
    and reg: "register e username password ce sock s = enrol e username password dg ce sock ?s2"
    by (auto simp: register_def Let_def split_beta split: if_splits option.splits)
  from assms reg have "fst (enrol e username password dg ce sock ?s2) = Inr r" by simp
  from enrol_joins [OF this dg] dg show ?thesis
    by (simp add: reg findDefaultGroup_cong [OF g2])
qed

section \<open>Login through the directory\<close>












text \<open>
  C10 fails on the code in the directory branch of \<open>login\<close>. The provisioning runs
  inside the \<open>try\<close> whose \<open>catch\<close> is meant for an unavailable directory;
  \<open>handleNewUser\<close> stands between \<open>User.create\<close> and the join of the default group, and
  when its Redis write throws, the \<open>catch\<close> swallows the error after the identity has
  been created. With Redis unreachable, carol, whom the directory authenticates and who
  has no identity, is logged in and provisioned, and the default group is left as it
  was: she is no member of it. (\<open>register\<close> does what the claim says:
  \<open>register_joins_default_group\<close>; so does this branch when \<open>handleNewUser\<close> returns:
  \<open>login_directory_new\<close>.)
\<close>

theorem directory_login_misses_default_group:
  "(\<exists>r. fst (login redis_down_env ''carol'' ''carolpw'' None envA fresh_sock auth_store) = Inr r
        \<and> lr_username r = ''carol'' \<and> lr_authProvider r = Some ''ldap'' \<and> lr_groups r = [])
   \<and> map u_username (users (snd (snd (login redis_down_env ''carol'' ''carolpw'' None envA
          fresh_sock auth_store)))) = [''alice'', ''carol'']
   \<and> groups (snd (snd (login redis_down_env ''carol'' ''carolpw'' None envA fresh_sock
          auth_store))) = [lobby]
   \<and> g_members lobby = [42]"
proof -
  have a: "authenticateWithLdap directory ldap_cfg ''carol'' ''carolpw'' = Inr (Some ''uid=carol'')"
    by (simp add: authenticateWithLdap_def directory_def ldap_cfg_def Let_def)
  have on: "ldap_enable ldap_cfg" by (simp add: ldap_cfg_def)
  show ?thesis
    apply (simp add: login_def ldapBranch_def redis_down_env_def ldap_env_def auth0_def
        config0_def a on)
    apply (simp add: provision_def findUserByName_def findDefaultGroup_def createUser_def
        handleNewUser_def completeLogin_def saveUser_def bindSocket_def generateToken_def
        logError_def Let_def OneDay_def envA_def fresh_sock_def auth_store_def empty_store_def
        alice_def lobby_def)
    done
qed




section \<open>Deleting a user\<close>






































end
